theory Spec2Isabelle
  imports Main "HOL-Library.Sublist" "HOL-Library.Word"
begin

section \<open>Strings of the JavaScript runtime\<close>

text \<open>
  A JavaScript string is modelled as a \<^typ>\<open>string\<close> holding the UTF-8 bytes of its
  text. Emptiness, concatenation and substring search do not depend on the encoding
  (UTF-8 is self-synchronising), so \<open>includes\<close>, \<open>join\<close> and the \<open>length === 0\<close> tests of
  the source read the same on bytes as on UTF-16 code units.
\<close>

text \<open>\<open>String.prototype.includes\<close>: the argument occurs as a contiguous substring.
  (\<open>includes\<close> is a keyword of Isabelle, hence the suffix.)\<close>

fun includes_str :: "string \<Rightarrow> string \<Rightarrow> bool" where
  "includes_str [] sub = (sub = [])"
| "includes_str (c # cs) sub = (prefix sub (c # cs) \<or> includes_str cs sub)"

text \<open>
  \<open>String.prototype.toLowerCase\<close> on the ASCII letters. Bytes from 0x80 on (the
  multi-byte characters) are left alone; the only use in the source is the search for
  \<open>'rate limit'\<close>, whose result no other case mapping of Unicode changes.
\<close>

definition lowerChar :: "char \<Rightarrow> char" where
  "lowerChar c =
     (case map_of (zip ''ABCDEFGHIJKLMNOPQRSTUVWXYZ'' ''abcdefghijklmnopqrstuvwxyz'') c of
        None \<Rightarrow> c
      | Some l \<Rightarrow> l)"

definition toLowerCase :: "string \<Rightarrow> string" where
  "toLowerCase s = map lowerChar s"

text \<open>
  The white space and line terminators of ECMAScript that \<open>String.prototype.trim\<close>
  removes, each as its UTF-8 encoding: U+0009 to U+000D, U+0020, U+00A0, U+1680,
  U+2000 to U+200A, U+2028, U+2029, U+202F, U+205F, U+3000 and U+FEFF.
\<close>

definition whiteSpace :: "string list" where
  "whiteSpace =
     [ [CHR 0x09], [CHR 0x0A], [CHR 0x0B], [CHR 0x0C], [CHR 0x0D], [CHR 0x20],
      [CHR 0xC2, CHR 0xA0],
      [CHR 0xE1, CHR 0x9A, CHR 0x80],
      [CHR 0xE2, CHR 0x80, CHR 0x80], [CHR 0xE2, CHR 0x80, CHR 0x81],
      [CHR 0xE2, CHR 0x80, CHR 0x82], [CHR 0xE2, CHR 0x80, CHR 0x83],
      [CHR 0xE2, CHR 0x80, CHR 0x84], [CHR 0xE2, CHR 0x80, CHR 0x85],
      [CHR 0xE2, CHR 0x80, CHR 0x86], [CHR 0xE2, CHR 0x80, CHR 0x87],
      [CHR 0xE2, CHR 0x80, CHR 0x88], [CHR 0xE2, CHR 0x80, CHR 0x89],
      [CHR 0xE2, CHR 0x80, CHR 0x8A],
      [CHR 0xE2, CHR 0x80, CHR 0xA8], [CHR 0xE2, CHR 0x80, CHR 0xA9],
      [CHR 0xE2, CHR 0x80, CHR 0xAF],
      [CHR 0xE2, CHR 0x81, CHR 0x9F],
      [CHR 0xE3, CHR 0x80, CHR 0x80],
      [CHR 0xEF, CHR 0xBB, CHR 0xBF] ]"

text \<open>Removing leading tokens of a list for as long as one of them starts the string.\<close>

function strip :: "string list \<Rightarrow> string \<Rightarrow> string" where
  "strip toks s =
     (case find (\<lambda>w. w \<noteq> [] \<and> prefix w s) toks of
        None \<Rightarrow> s
      | Some w \<Rightarrow> strip toks (drop (length w) s))"
  by pat_completeness auto
termination
proof (relation "measure (\<lambda>(toks, s). length s)")
  show "wf (measure (\<lambda>(toks, s). length s))" by simp
next
  fix toks :: "string list" and s w :: string
  assume "find (\<lambda>w. w \<noteq> [] \<and> prefix w s) toks = Some w"
  then have "w \<noteq> []" and "prefix w s"
    by (auto simp: find_Some_iff)
  then have "s \<noteq> []" by auto
  with \<open>w \<noteq> []\<close> show "((toks, drop (length w) s), (toks, s)) \<in> measure (\<lambda>(toks, s). length s)"
    by simp
qed

definition trimStart :: "string \<Rightarrow> string" where
  "trimStart s = strip whiteSpace s"

definition trimEnd :: "string \<Rightarrow> string" where
  "trimEnd s = rev (strip (map rev whiteSpace) (rev s))"

text \<open>\<open>String.prototype.trim\<close>.\<close>

definition trim :: "string \<Rightarrow> string" where
  "trim s = trimEnd (trimStart s)"

text \<open>\<open>Array.prototype.join\<close> with a separator.\<close>

fun join :: "string \<Rightarrow> string list \<Rightarrow> string" where
  "join sep [] = []"
| "join sep [x] = x"
| "join sep (x # y # ys) = x @ sep @ join sep (y # ys)"

section \<open>Errors and thrown values\<close>

text \<open>
  An \<open>Error\<close> object has a message; the errors of the API client also carry the HTTP
  status of the failed response, which \<open>new Error(msg)\<close> leaves undefined. JavaScript
  can throw any value: \<open>NonError\<close> is a thrown value that is not an instance of
  \<open>Error\<close>, given by its rendering \<open>String(value)\<close>.
\<close>

record js_error =
  message :: string
  status :: "nat option"

datatype thrown = Err js_error | NonError string

definition new_Error :: "string \<Rightarrow> js_error" where
  "new_Error msg = \<lparr>message = msg, status = None\<rparr>"

section \<open>vision.service.ts: the retry wrapper\<close>

definition maxRetries :: nat where
  "maxRetries = 3"

definition baseDelay :: nat where
  "baseDelay = 1000"

text \<open>
  What the wrapper does besides returning: it invokes the operation (\<open>Invoke k\<close> is the
  invocation made in loop iteration \<open>k\<close>) and sleeps (\<open>Sleep ms\<close>).
\<close>

datatype event = Invoke nat | Sleep nat

text \<open>\<open>error instanceof Error ? error : new Error(String(error))\<close>\<close>

fun toError :: "thrown \<Rightarrow> js_error" where
  "toError (Err e) = e"
| "toError (NonError s) = new_Error s"

text \<open>The local \<open>isRateLimit\<close> of \<open>withRetry\<close>.\<close>

definition isRateLimit :: "js_error \<Rightarrow> bool" where
  "isRateLimit lastError \<longleftrightarrow>
     includes_str (message lastError) ''429'' \<or>
     includes_str (toLowerCase (message lastError)) ''rate limit''"

text \<open>\<open>throw lastError\<close>, where \<open>lastError\<close> is an \<open>Error\<close> or still \<open>null\<close>.\<close>

fun throw_lastError :: "js_error option \<Rightarrow> thrown" where
  "throw_lastError None = NonError ''null''"
| "throw_lastError (Some e) = Err e"

text \<open>
  The \<open>for\<close> loop of \<open>withRetry\<close>. The operation is a thunk with effects; it is given
  by the outcome of each of its invocations, \<open>operation k\<close> being what the invocation in
  iteration \<open>k\<close> resolves to (\<open>Inr\<close>) or rejects with (\<open>Inl\<close>). The loop state is
  \<open>attempt\<close>, \<open>lastError\<close> and the events so far.
\<close>

function withRetry_loop ::
  "(nat \<Rightarrow> thrown + 'a) \<Rightarrow> nat \<Rightarrow> js_error option \<Rightarrow> event list \<Rightarrow> (thrown + 'a) \<times> event list"
where
  "withRetry_loop operation attempt lastError log =
     (if attempt < maxRetries then
        (case operation attempt of
           Inr v \<Rightarrow> (Inr v, log @ [Invoke attempt])
         | Inl error \<Rightarrow>
             (let lastError' = toError error in
              if isRateLimit lastError' \<and> attempt < maxRetries - 1 then
                (let delay = baseDelay * 2 ^ attempt in
                 withRetry_loop operation (attempt + 1) (Some lastError')
                   (log @ [Invoke attempt, Sleep delay]))
              else (Inl (Err lastError'), log @ [Invoke attempt])))
      else (Inl (throw_lastError lastError), log))"
  by pat_completeness auto
termination
  by (relation "measure (\<lambda>(operation, attempt, lastError, log). maxRetries - attempt)") auto

definition withRetry :: "(nat \<Rightarrow> thrown + 'a) \<Rightarrow> (thrown + 'a) \<times> event list" where
  "withRetry operation = withRetry_loop operation 0 None []"

section \<open>vision.service.ts: the caption requests\<close>

type_synonym bytes = "8 word list"

text \<open>\<open>AzureOpenAIConfig\<close> of types/index.ts; a \<open>VisionService\<close> is given by the config it was built from.\<close>

record AzureOpenAIConfig =
  apiKey :: string
  endpoint :: string
  modelId :: string

text \<open>
  The argument of \<open>client.chat.completions.create\<close>: one user message of a text part and
  an image part. The image part is the data URL \<open>data:<mimeType>;base64,<image>\<close>, kept
  here as the two values it is built from; the temperature is the constant 0.7.
\<close>

record chat_request =
  model :: string
  text_part :: string
  image_mime :: string
  image_data :: bytes
  max_tokens :: nat

record chat_message =
  content :: "string option"

record chat_choice =
  choice_message :: "chat_message option"

text \<open>
  The hosted model, seen from this process: what the \<open>k\<close>-th call made through a client
  resolves to (the \<open>choices\<close> of the response) or rejects with.
\<close>

type_synonym azure_api = "AzureOpenAIConfig \<Rightarrow> chat_request \<Rightarrow> nat \<Rightarrow> thrown + chat_choice list"

text \<open>\<open>response.choices[0]?.message?.content\<close>\<close>

fun first_content :: "chat_choice list \<Rightarrow> string option" where
  "first_content [] = None"
| "first_content (c # cs) =
     (case choice_message c of None \<Rightarrow> None | Some m \<Rightarrow> content m)"

definition caption_instruction :: string where
  "caption_instruction =
     ''Please analyze this image and generate a detailed, natural language caption that describes what you see. Include relevant details about the subjects, actions, setting, colors, and mood if applicable. Keep the caption concise but informative (1-3 sentences).''"

text \<open>The message of the rate-limit error, in Thai in the source, as its UTF-8 bytes.\<close>

definition rate_limited_message :: string where
  "rate_limited_message =
     ''API '' @
       [CHR 0xE0, CHR 0xB8, CHR 0x96, CHR 0xE0, CHR 0xB8, CHR 0xB9,
        CHR 0xE0, CHR 0xB8, CHR 0x81, CHR 0xE0, CHR 0xB8, CHR 0x88,
        CHR 0xE0, CHR 0xB8, CHR 0xB3, CHR 0xE0, CHR 0xB8, CHR 0x81,
        CHR 0xE0, CHR 0xB8, CHR 0xB1, CHR 0xE0, CHR 0xB8, CHR 0x94,
        CHR 0x20, CHR 0xE0, CHR 0xB8, CHR 0x81, CHR 0xE0, CHR 0xB8,
        CHR 0xA3, CHR 0xE0, CHR 0xB8, CHR 0xB8, CHR 0xE0, CHR 0xB8,
        CHR 0x93, CHR 0xE0, CHR 0xB8, CHR 0xB2, CHR 0xE0, CHR 0xB8,
        CHR 0xA3, CHR 0xE0, CHR 0xB8, CHR 0xAD, CHR 0xE0, CHR 0xB8,
        CHR 0xAA, CHR 0xE0, CHR 0xB8, CHR 0xB1, CHR 0xE0, CHR 0xB8,
        CHR 0x81, CHR 0xE0, CHR 0xB8, CHR 0x84, CHR 0xE0, CHR 0xB8,
        CHR 0xA3, CHR 0xE0, CHR 0xB8, CHR 0xB9, CHR 0xE0, CHR 0xB9,
        CHR 0x88]"

text \<open>The request that \<open>generateCaption\<close> sends.\<close>

definition caption_chat_request :: "AzureOpenAIConfig \<Rightarrow> bytes \<Rightarrow> string \<Rightarrow> chat_request" where
  "caption_chat_request service imageBuffer mimeType =
     \<lparr>model = modelId service, text_part = caption_instruction,
      image_mime = mimeType, image_data = imageBuffer, max_tokens = 300\<rparr>"

text \<open>
  The operation that \<open>generateCaption\<close> hands to \<open>withRetry\<close>. The test \<open>!caption\<close> holds
  when the content is \<open>undefined\<close> or \<open>null\<close> (\<open>None\<close>) and when it is the empty string.
\<close>

definition caption_operation ::
  "azure_api \<Rightarrow> AzureOpenAIConfig \<Rightarrow> bytes \<Rightarrow> string \<Rightarrow> nat \<Rightarrow> thrown + string"
where
  "caption_operation api service imageBuffer mimeType k =
     (case api service (caption_chat_request service imageBuffer mimeType) k of
        Inl e \<Rightarrow> Inl e
      | Inr choices \<Rightarrow>
          (case first_content choices of
             None \<Rightarrow> Inl (Err (new_Error ''No caption generated from the AI model''))
           | Some caption \<Rightarrow>
               if caption = [] then Inl (Err (new_Error ''No caption generated from the AI model''))
               else Inr (trim caption)))"

text \<open>The \<open>.catch\<close> handler of \<open>generateCaption\<close>.\<close>

fun generateCaption_catch :: "thrown \<Rightarrow> thrown" where
  "generateCaption_catch (Err error) =
     (if includes_str (message error) ''401'' then
        Err (new_Error ''Invalid API key or unauthorized access'')
      else if includes_str (message error) ''404'' then
        Err (new_Error ''Model deployment not found'')
      else if includes_str (message error) ''429'' then
        Err (new_Error rate_limited_message)
      else Err (new_Error (''Failed to generate caption: '' @ message error)))"
| "generateCaption_catch (NonError s) =
     Err (new_Error ''An unexpected error occurred while generating the caption'')"

definition generateCaption ::
  "azure_api \<Rightarrow> AzureOpenAIConfig \<Rightarrow> bytes \<Rightarrow> string \<Rightarrow> (thrown + string) \<times> event list"
where
  "generateCaption api service imageBuffer mimeType =
     (case withRetry (caption_operation api service imageBuffer mimeType) of
        (Inr caption, log) \<Rightarrow> (Inr caption, log)
      | (Inl error, log) \<Rightarrow> (Inl (generateCaption_catch error), log))"

text \<open>The request that \<open>generateCaptionWithPrompt\<close> sends.\<close>

definition prompt_chat_request ::
  "AzureOpenAIConfig \<Rightarrow> bytes \<Rightarrow> string \<Rightarrow> string \<Rightarrow> chat_request"
where
  "prompt_chat_request service imageBuffer mimeType customPrompt =
     \<lparr>model = modelId service, text_part = customPrompt,
      image_mime = mimeType, image_data = imageBuffer, max_tokens = 500\<rparr>"

text \<open>The operation that \<open>generateCaptionWithPrompt\<close> hands to \<open>withRetry\<close>.\<close>

definition prompt_operation ::
  "azure_api \<Rightarrow> AzureOpenAIConfig \<Rightarrow> bytes \<Rightarrow> string \<Rightarrow> string \<Rightarrow> nat \<Rightarrow> thrown + string"
where
  "prompt_operation api service imageBuffer mimeType customPrompt k =
     (case api service (prompt_chat_request service imageBuffer mimeType customPrompt) k of
        Inl e \<Rightarrow> Inl e
      | Inr choices \<Rightarrow>
          (case first_content choices of
             None \<Rightarrow> Inl (Err (new_Error ''No response generated from the AI model''))
           | Some caption \<Rightarrow>
               if caption = [] then Inl (Err (new_Error ''No response generated from the AI model''))
               else Inr (trim caption)))"

text \<open>The \<open>.catch\<close> handler of \<open>generateCaptionWithPrompt\<close>.\<close>

fun generateCaptionWithPrompt_catch :: "thrown \<Rightarrow> thrown" where
  "generateCaptionWithPrompt_catch (Err error) =
     (if includes_str (message error) ''429'' then Err (new_Error rate_limited_message)
      else Err error)"
| "generateCaptionWithPrompt_catch (NonError s) =
     Err (new_Error ''An unexpected error occurred'')"

definition generateCaptionWithPrompt ::
  "azure_api \<Rightarrow> AzureOpenAIConfig \<Rightarrow> bytes \<Rightarrow> string \<Rightarrow> string \<Rightarrow> (thrown + string) \<times> event list"
where
  "generateCaptionWithPrompt api service imageBuffer mimeType customPrompt =
     (case withRetry (prompt_operation api service imageBuffer mimeType customPrompt) of
        (Inr caption, log) \<Rightarrow> (Inr caption, log)
      | (Inl error, log) \<Rightarrow> (Inl (generateCaptionWithPrompt_catch error), log))"

section \<open>types/index.ts\<close>

definition SUPPORTED_IMAGE_TYPES :: "string list" where
  "SUPPORTED_IMAGE_TYPES = [''image/jpeg'', ''image/png'', ''image/gif'', ''image/webp'']"

record CaptionResponse =
  success :: bool
  caption :: "string option"
  error :: "string option"
  timestamp :: string

record ValidationResult =
  isValid :: bool
  validation_error :: "string option"

section \<open>caption.route.ts\<close>

text \<open>
  \<open>Express.Multer.File\<close>, the fields the routes read. Its \<open>buffer\<close> is a \<open>Buffer\<close>, so
  the test \<open>!file.buffer\<close> of \<open>validateFile\<close> is false on every file.
\<close>

record multer_file =
  buffer :: bytes
  mimetype :: string

text \<open>What a handler sends: \<open>res.status(n).json(response)\<close>.\<close>

record http_response =
  http_status :: nat
  body :: CaptionResponse

text \<open>\<open>process.env\<close>\<close>

type_synonym environment = "string \<Rightarrow> string option"

text \<open>
  The callback of \<open>fileFilter\<close>: \<open>callback(null, true)\<close> is \<open>Inr True\<close>,
  \<open>callback(new Error(...))\<close> is \<open>Inl\<close> of the error.
\<close>

definition fileFilter :: "string \<Rightarrow> js_error + bool" where
  "fileFilter file_mimetype =
     (if file_mimetype \<in> set SUPPORTED_IMAGE_TYPES then Inr True
      else Inl (new_Error
        (''Invalid file type. Supported types: '' @ join '', '' SUPPORTED_IMAGE_TYPES)))"

text \<open>\<open>limits.fileSize\<close> of the multer configuration.\<close>

definition fileSize :: nat where
  "fileSize = 10 * 1024 * 1024"

text \<open>
  \<open>getVisionService\<close>; \<open>!apiKey\<close> and the like hold when the variable is unset (\<open>None\<close>)
  or empty.
\<close>

definition getVisionService :: "environment \<Rightarrow> thrown + AzureOpenAIConfig" where
  "getVisionService env =
     (case (env ''AZURE_OPENAI_API_KEY'', env ''AZURE_OPENAI_ENDPOINT'',
            env ''AZURE_OPENAI_MODEL_ID'') of
        (Some k, Some e, Some m) \<Rightarrow>
          if k = [] \<or> e = [] \<or> m = [] then
            Inl (Err (new_Error ''Missing required Azure OpenAI environment variables''))
          else Inr \<lparr>apiKey = k, endpoint = e, modelId = m\<rparr>
      | _ \<Rightarrow> Inl (Err (new_Error ''Missing required Azure OpenAI environment variables'')))"

fun validateFile :: "multer_file option \<Rightarrow> ValidationResult" where
  "validateFile None = \<lparr>isValid = False, validation_error = Some ''No image file provided''\<rparr>"
| "validateFile (Some file) =
     (if length (buffer file) = 0 then
        \<lparr>isValid = False, validation_error = Some ''Empty file uploaded''\<rparr>
      else if mimetype file \<notin> set SUPPORTED_IMAGE_TYPES then
        \<lparr>isValid = False,
         validation_error = Some (''Invalid file type: '' @ mimetype file @ ''. Supported: '' @
           join '', '' SUPPORTED_IMAGE_TYPES)\<rparr>
      else \<lparr>isValid = True, validation_error = None\<rparr>)"

text \<open>The \<open>catch\<close> block of both handlers.\<close>

definition handler_catch :: "CaptionResponse \<Rightarrow> thrown \<Rightarrow> http_response" where
  "handler_catch response thrown_value =
     \<lparr>http_status = 500,
      body = response\<lparr>error :=
        Some (case thrown_value of
                Err e \<Rightarrow> message e
              | NonError s \<Rightarrow> ''An unexpected error occurred'')\<rparr>\<rparr>"

text \<open>
  \<open>req.file!\<close> followed by \<open>file.buffer\<close> when \<open>req.file\<close> is \<open>undefined\<close>: a \<open>TypeError\<close>,
  which the handler's \<open>catch\<close> receives. \<open>validateFile\<close> keeps the handlers from it.
\<close>

definition undefined_file :: thrown where
  "undefined_file = Err (new_Error ''Cannot read properties of undefined (reading 'buffer')'')"

text \<open>
  The handler of \<open>POST /\<close>, given the environment, the hosted model, the time of the
  request as \<open>toISOString\<close> renders it, and \<open>req.file\<close>. It returns the response with
  the calls to the model and the sleeps it made.
\<close>

definition post_caption ::
  "environment \<Rightarrow> azure_api \<Rightarrow> string \<Rightarrow> multer_file option \<Rightarrow> http_response \<times> event list"
where
  "post_caption env api now req_file =
     (let response = \<lparr>success = False, caption = None, error = None, timestamp = now\<rparr>;
          validation = validateFile req_file in
      if \<not> isValid validation then
        (\<lparr>http_status = 400, body = response\<lparr>error := validation_error validation\<rparr>\<rparr>, [])
      else
        (case req_file of
           None \<Rightarrow> (handler_catch response undefined_file, [])
         | Some file \<Rightarrow>
             (case getVisionService env of
                Inl e \<Rightarrow> (handler_catch response e, [])
              | Inr visionService \<Rightarrow>
                  (case generateCaption api visionService (buffer file) (mimetype file) of
                     (Inr c, log) \<Rightarrow>
                       (\<lparr>http_status = 200,
                         body = response\<lparr>success := True, caption := Some c\<rparr>\<rparr>, log)
                   | (Inl e, log) \<Rightarrow> (handler_catch response e, log)))))"

text \<open>
  A value of \<open>req.body\<close> as multer builds it from the text fields of the request: a
  string for a field sent once, an array for a field sent several times or named
  \<open>prompt[]\<close>, an object for fields named \<open>prompt[key]\<close>. The cast \<open>as string\<close> of the
  handler is not checked when the program runs, so the handler meets all three.
\<close>

datatype body_value = Str string | Arr "string list" | Obj "(string \<times> string) list"

text \<open>
  \<open>customPrompt.trim()\<close> on an array or an object: neither has a \<open>trim\<close>, the call throws
  a \<open>TypeError\<close>, which the handler's \<open>catch\<close> receives.
\<close>

definition trim_not_a_function :: thrown where
  "trim_not_a_function = Err (new_Error ''customPrompt.trim is not a function'')"

text \<open>
  The handler of \<open>POST /custom\<close>; \<open>req_prompt\<close> is \<open>req.body.prompt\<close>, \<open>None\<close> when it is
  \<open>undefined\<close>. An array and an object are truthy, so \<open>!customPrompt\<close> is false on them and
  \<open>customPrompt.trim()\<close> is evaluated.
\<close>

definition post_custom ::
  "environment \<Rightarrow> azure_api \<Rightarrow> string \<Rightarrow> multer_file option \<Rightarrow> body_value option \<Rightarrow>
   http_response \<times> event list"
where
  "post_custom env api now req_file req_prompt =
     (let response = \<lparr>success = False, caption = None, error = None, timestamp = now\<rparr>;
          validation = validateFile req_file in
      if \<not> isValid validation then
        (\<lparr>http_status = 400, body = response\<lparr>error := validation_error validation\<rparr>\<rparr>, [])
      else
        (case req_prompt of
           None \<Rightarrow>
             (\<lparr>http_status = 400,
               body = response\<lparr>error := Some ''Custom prompt is required''\<rparr>\<rparr>, [])
         | Some (Arr items) \<Rightarrow> (handler_catch response trim_not_a_function, [])
         | Some (Obj entries) \<Rightarrow> (handler_catch response trim_not_a_function, [])
         | Some (Str customPrompt) \<Rightarrow>
             if customPrompt = [] \<or> length (trim customPrompt) = 0 then
               (\<lparr>http_status = 400,
                 body = response\<lparr>error := Some ''Custom prompt is required''\<rparr>\<rparr>, [])
             else
               (case req_file of
                  None \<Rightarrow> (handler_catch response undefined_file, [])
                | Some file \<Rightarrow>
                    (case getVisionService env of
                       Inl e \<Rightarrow> (handler_catch response e, [])
                     | Inr visionService \<Rightarrow>
                         (case generateCaptionWithPrompt api visionService (buffer file)
                                 (mimetype file) (trim customPrompt) of
                            (Inr c, log) \<Rightarrow>
                              (\<lparr>http_status = 200,
                                body = response\<lparr>success := True, caption := Some c\<rparr>\<rparr>, log)
                          | (Inl e, log) \<Rightarrow> (handler_catch response e, log))))))"



text \<open>
  The errors that reach the router's error-handling middleware: a \<open>multer.MulterError\<close>
  with its code and message, or another \<open>Error\<close>.
\<close>

datatype route_error = MulterError string string | OtherError js_error

text \<open>The error-handling middleware; \<open>error.message || ...\<close> replaces an empty message.\<close>

fun error_middleware :: "string \<Rightarrow> route_error \<Rightarrow> http_response" where
  "error_middleware now (MulterError code msg) =
     (let response = \<lparr>success = False, caption = None, error = None, timestamp = now\<rparr> in
      if code = ''LIMIT_FILE_SIZE'' then
        \<lparr>http_status = 400,
         body = response\<lparr>error := Some ''File size exceeds the 10MB limit''\<rparr>\<rparr>
      else
        \<lparr>http_status = 400, body = response\<lparr>error := Some (''Upload error: '' @ msg)\<rparr>\<rparr>)"
| "error_middleware now (OtherError e) =
     (let response = \<lparr>success = False, caption = None, error = None, timestamp = now\<rparr> in
      \<lparr>http_status = 500,
       body = response\<lparr>error :=
         Some (if message e = [] then ''An unexpected error occurred'' else message e)\<rparr>\<rparr>)"

subsection \<open>The routes: multer in front of the handlers\<close>

text \<open>
  A multipart request as the routes see it: the file part of the field \<open>image\<close>, if the
  request has one, with the value of its \<open>Content-Type\<close> header and its bytes, and the
  values of the text fields named \<open>prompt\<close>, in the order they were sent.
\<close>

record file_part =
  part_content_type :: string
  part_data :: bytes

record caption_request =
  image_part :: "file_part option"
  prompt_fields :: "string list"

text \<open>
  \<open>file.mimetype\<close> as multer reports it. The library that parses the request takes the
  type and subtype of the part's \<open>Content-Type\<close>, in lower case and without the
  parameters that follow a semicolon, and \<open>text/plain\<close> for a part without a type. Versions
  of the library differ on a header that is not well formed, which is read here as its text
  before the first semicolon; the theorems below that name a type are at well-formed headers.
\<close>

definition file_mimetype :: "string \<Rightarrow> string" where
  "file_mimetype content_type =
     (let t = toLowerCase (trim (takeWhile (\<lambda>c. c \<noteq> CHR '';'') content_type)) in
      if t = [] then ''text/plain'' else t)"

definition part_mimetype :: "file_part \<Rightarrow> string" where
  "part_mimetype part = file_mimetype (part_content_type part)"

text \<open>
  \<open>req.body.prompt\<close> as multer builds it from the fields named \<open>prompt\<close>: \<open>undefined\<close>
  without a field, the string of a field sent once, the array of the values of a field sent
  several times.
\<close>

fun body_prompt :: "string list \<Rightarrow> body_value option" where
  "body_prompt [] = None"
| "body_prompt [v] = Some (Str v)"
| "body_prompt (v # w # vs) = Some (Arr (v # w # vs))"

text \<open>
  \<open>upload.single('image')\<close>, multer configured with the memory storage, \<open>fileFilter\<close> and
  \<open>limits.fileSize\<close> of this file. Multer, a library, is modelled by its documented
  behaviour: it asks the filter about the file part, under the type it reports in
  \<open>file.mimetype\<close>, before it reads the file; an error from
  the filter is passed to \<open>next\<close>; a file the filter declines is skipped; a file longer
  than \<open>fileSize\<close> bytes is refused with the \<open>MulterError\<close> of code \<open>LIMIT_FILE_SIZE\<close>;
  otherwise the file is in \<open>req.file\<close>, and without a file part \<open>req.file\<close> is
  \<open>undefined\<close>. Versions of the library differ on a file of exactly \<open>fileSize\<close> bytes,
  which is accepted here; no statement below is about such a file.
\<close>

definition upload_single :: "caption_request \<Rightarrow> route_error + multer_file option" where
  "upload_single req =
     (case image_part req of
        None \<Rightarrow> Inr None
      | Some part \<Rightarrow>
          (case fileFilter (part_mimetype part) of
             Inl err \<Rightarrow> Inl (OtherError err)
           | Inr accepted \<Rightarrow>
               if \<not> accepted then Inr None
               else if fileSize < length (part_data part) then
                 Inl (MulterError ''LIMIT_FILE_SIZE'' ''File too large'')
               else Inr (Some \<lparr>buffer = part_data part, mimetype = part_mimetype part\<rparr>)))"

text \<open>
  \<open>router.post('/', upload.single('image'), handler)\<close> with the router's error-handling
  middleware: Express runs the handler when multer calls \<open>next()\<close> and the middleware when
  it calls \<open>next(err)\<close>.
\<close>

definition route_caption ::
  "environment \<Rightarrow> azure_api \<Rightarrow> string \<Rightarrow> caption_request \<Rightarrow> http_response \<times> event list"
where
  "route_caption env api now req =
     (case upload_single req of
        Inl err \<Rightarrow> (error_middleware now err, [])
      | Inr req_file \<Rightarrow> post_caption env api now req_file)"

definition route_custom ::
  "environment \<Rightarrow> azure_api \<Rightarrow> string \<Rightarrow> caption_request \<Rightarrow> http_response \<times> event list"
where
  "route_custom env api now req =
     (case upload_single req of
        Inl err \<Rightarrow> (error_middleware now err, [])
      | Inr req_file \<Rightarrow> post_custom env api now req_file (body_prompt (prompt_fields req)))"

section \<open>server.ts\<close>





section \<open>Example inputs\<close>

text \<open>Errors as the API client raises them, and scripted operations for \<open>withRetry\<close>.\<close>

definition too_many_requests :: js_error where
  "too_many_requests = \<lparr>message = ''429 Too Many Requests'', status = Some 429\<rparr>"

definition unauthorized :: js_error where
  "unauthorized = \<lparr>message = ''401 Unauthorized'', status = Some 401\<rparr>"

definition misread_error :: js_error where
  "misread_error = \<lparr>message = ''Cannot decode photo_4291.png'', status = Some 400\<rparr>"

definition always_rate_limited :: "nat \<Rightarrow> thrown + string" where
  "always_rate_limited = (\<lambda>k. Inl (Err too_many_requests))"

definition retried_once :: "nat \<Rightarrow> thrown + string" where
  "retried_once = (\<lambda>k. if k = 0 then Inl (Err too_many_requests) else Inr ''A cat on a sofa.'')"

definition limited_then_unauthorized :: "nat \<Rightarrow> thrown + string" where
  "limited_then_unauthorized =
     (\<lambda>k. if k = 0 then Inl (Err too_many_requests) else Inl (Err unauthorized))"

definition throws_string :: "nat \<Rightarrow> thrown + string" where
  "throws_string = (\<lambda>k. Inl (NonError ''boom''))"

definition always_misread :: "nat \<Rightarrow> thrown + string" where
  "always_misread = (\<lambda>k. Inl (Err misread_error))"

text \<open>A configured service, models that answer, and uploads.\<close>

definition example_service :: AzureOpenAIConfig where
  "example_service =
     \<lparr>apiKey = ''secret'', endpoint = ''https://example.openai.azure.com/'', modelId = ''gpt-4o''\<rparr>"

definition png_bytes :: bytes where
  "png_bytes = [0x89, 0x50, 0x4E, 0x47]"

definition answering_api :: azure_api where
  "answering_api =
     (\<lambda>service request k.
        Inr [\<lparr>choice_message = Some \<lparr>content = Some ('' A cat on a sofa.'' @ [CHR 0x0A])\<rparr>\<rparr>])"

definition silent_api :: azure_api where
  "silent_api = (\<lambda>service request k. Inr [\<lparr>choice_message = Some \<lparr>content = None\<rparr>\<rparr>])"

definition blank_api :: azure_api where
  "blank_api = (\<lambda>service request k. Inr [\<lparr>choice_message = Some \<lparr>content = Some '' ''\<rparr>\<rparr>])"

definition configured_env :: environment where
  "configured_env =
     map_of [(''AZURE_OPENAI_API_KEY'', ''secret''),
             (''AZURE_OPENAI_ENDPOINT'', ''https://example.openai.azure.com/''),
             (''AZURE_OPENAI_MODEL_ID'', ''gpt-4o'')]"

definition request_time :: string where
  "request_time = ''2026-01-07T10:30:00.000Z''"

definition png_file :: multer_file where
  "png_file = \<lparr>buffer = png_bytes, mimetype = ''image/png''\<rparr>"

definition png_upload :: caption_request where
  "png_upload =
     \<lparr>image_part = Some \<lparr>part_content_type = ''image/png'', part_data = png_bytes\<rparr>,
      prompt_fields = []\<rparr>"

definition text_upload :: caption_request where
  "text_upload =
     \<lparr>image_part = Some \<lparr>part_content_type = ''text/plain'', part_data = [0x68, 0x69]\<rparr>,
      prompt_fields = [''What is this?'']\<rparr>"

definition oversize_text_upload :: caption_request where
  "oversize_text_upload =
     \<lparr>image_part =
        Some \<lparr>part_content_type = ''text/plain'', part_data = replicate (fileSize + 1) 0\<rparr>,
      prompt_fields = [''What is this?'']\<rparr>"

definition twice_blank_upload :: caption_request where
  "twice_blank_upload = png_upload\<lparr>prompt_fields := ['''', '' '']\<rparr>"

definition shouted_png_upload :: caption_request where
  "shouted_png_upload =
     \<lparr>image_part =
        Some \<lparr>part_content_type = ''IMAGE/PNG; charset=binary'', part_data = png_bytes\<rparr>,
      prompt_fields = []\<rparr>"


section \<open>Substring search and trimming\<close>

lemma includes_str_iff_sublist: "includes_str s sub \<longleftrightarrow> sublist sub s"
  by (induction s) (simp_all add: sublist_Cons_right)

lemma sublist_map_iff: "sublist p (map f s) \<longleftrightarrow> (\<exists>t. sublist t s \<and> map f t = p)"
proof
  assume "sublist p (map f s)"
  then show "\<exists>t. sublist t s \<and> map f t = p"
    using sublist_map_rightE by metis
next
  assume "\<exists>t. sublist t s \<and> map f t = p"
  then show "sublist p (map f s)"
    using map_mono_sublist by blast
qed

lemma whiteSpace_nonempty: "w \<in> set whiteSpace \<Longrightarrow> w \<noteq> []"
  by (auto simp: whiteSpace_def)

text \<open>No encoded white-space character starts another one: the list is a prefix code.\<close>

lemma whiteSpace_prefix_free:
  "\<forall>w\<in>set whiteSpace. \<forall>t\<in>set whiteSpace. prefix w t \<longrightarrow> w = t"
  unfolding whiteSpace_def by simp

declare strip.simps [simp del]

lemma strip_None:
  "find (\<lambda>w. w \<noteq> [] \<and> prefix w s) toks = None \<Longrightarrow> strip toks s = s"
  by (subst strip.simps) simp

lemma strip_Some:
  "find (\<lambda>w. w \<noteq> [] \<and> prefix w s) toks = Some w \<Longrightarrow>
   strip toks s = strip toks (drop (length w) s)"
  by (subst strip.simps) simp

lemma strip_Nil: "strip toks [] = []"
  by (rule strip_None) (simp add: find_None_iff)

text \<open>What \<open>strip\<close> removes is a sequence of tokens.\<close>

lemma strip_decomp: "\<exists>ts. set ts \<subseteq> set toks \<and> s = concat ts @ strip toks s"
proof (induction toks s rule: strip.induct)
  case (1 toks s)
  show ?case
  proof (cases "find (\<lambda>w. w \<noteq> [] \<and> prefix w s) toks")
    case None
    then have "s = concat [] @ strip toks s"
      by (simp add: strip_None)
    then show ?thesis by (intro exI [of _ "[]"]) simp
  next
    case (Some w)
    then have w: "w \<in> set toks" "prefix w s"
      by (auto simp: find_Some_iff)
    from "1.IH" [OF Some] obtain ts where
      ts: "set ts \<subseteq> set toks" "drop (length w) s = concat ts @ strip toks (drop (length w) s)"
      by blast
    from w(2) have "s = w @ drop (length w) s"
      by (auto simp: prefix_def)
    with ts(2) have "s = concat (w # ts) @ strip toks s"
      by (simp add: strip_Some [OF Some])
    with ts(1) w(1) show ?thesis
      by (intro exI [of _ "w # ts"]) simp
  qed
qed

text \<open>What \<open>strip\<close> leaves starts with no token.\<close>

lemma strip_no_prefix: "w \<in> set toks \<Longrightarrow> w \<noteq> [] \<Longrightarrow> \<not> prefix w (strip toks s)"
proof (induction toks s rule: strip.induct)
  case (1 toks s)
  show ?case
  proof (cases "find (\<lambda>w. w \<noteq> [] \<and> prefix w s) toks")
    case None
    with "1.prems" show ?thesis
      by (auto simp: strip_None find_None_iff)
  next
    case (Some v)
    with "1.IH" [OF Some] "1.prems" show ?thesis
      by (simp add: strip_Some)
  qed
qed

text \<open>A sequence of tokens of a prefix code is removed whole.\<close>

lemma strip_concat:
  assumes "\<forall>w\<in>set toks. \<forall>t\<in>set toks. prefix w t \<longrightarrow> w = t" and "set ts \<subseteq> set toks"
  shows "strip toks (concat ts) = []"
  using assms(2)
proof (induction ts)
  case Nil
  show ?case by (simp add: strip_Nil)
next
  case (Cons t ts)
  show ?case
  proof (cases "t = []")
    case True
    with Cons show ?thesis by simp
  next
    case False
    let ?s = "concat (t # ts)"
    from Cons.prems have t: "t \<in> set toks" by simp
    with False have "\<exists>w\<in>set toks. w \<noteq> [] \<and> prefix w ?s"
      by (intro bexI [of _ t]) simp_all
    then obtain w where found: "find (\<lambda>w. w \<noteq> [] \<and> prefix w ?s) toks = Some w"
      by (cases "find (\<lambda>w. w \<noteq> [] \<and> prefix w ?s) toks") (auto simp: find_None_iff)
    then have w: "w \<in> set toks" "prefix w (t @ concat ts)"
      by (auto simp: find_Some_iff)
    have "prefix t (t @ concat ts)" by simp
    with w(2) have "prefix w t \<or> prefix t w"
      by (rule prefix_same_cases)
    with assms(1) w(1) t have "w = t" by blast
    with found have "strip toks ?s = strip toks (concat ts)"
      by (simp add: strip_Some)
    with Cons show ?thesis by simp
  qed
qed

text \<open>A string of white space only trims to the empty string.\<close>

lemma trim_whitespace_only:
  assumes "set ts \<subseteq> set whiteSpace"
  shows "trim (concat ts) = []"
  using strip_concat [OF whiteSpace_prefix_free assms]
  by (simp add: trim_def trimStart_def trimEnd_def strip_Nil)

text \<open>
  \<open>trim\<close> removes white space at both ends and nothing else, and what it returns neither
  starts nor ends with white space.
\<close>

lemma trim_decomp:
  "\<exists>as bs. set as \<subseteq> set whiteSpace \<and> set bs \<subseteq> set whiteSpace \<and>
      s = concat as @ trim s @ concat bs"
proof -
  obtain as where as: "set as \<subseteq> set whiteSpace" "s = concat as @ trimStart s"
    using strip_decomp [of whiteSpace s] by (auto simp: trimStart_def)
  obtain rs where rs: "set rs \<subseteq> set (map rev whiteSpace)"
      "rev (trimStart s) = concat rs @ strip (map rev whiteSpace) (rev (trimStart s))"
    using strip_decomp [of "map rev whiteSpace" "rev (trimStart s)"] by blast
  from rs(2) have "rev (rev (trimStart s)) =
      rev (concat rs @ strip (map rev whiteSpace) (rev (trimStart s)))"
    by simp
  then have "trimStart s = trim s @ concat (map rev (rev rs))"
    by (simp add: trim_def trimEnd_def rev_concat)
  moreover from rs(1) have "set (map rev (rev rs)) \<subseteq> set whiteSpace"
    by auto
  ultimately show ?thesis
    using as by (metis append_assoc)
qed

lemma trim_no_leading: "w \<in> set whiteSpace \<Longrightarrow> \<not> prefix w (trim s)"
proof
  assume w: "w \<in> set whiteSpace" and p: "prefix w (trim s)"
  obtain rs where "rev (trimStart s) = concat rs @ rev (trim s)"
    using strip_decomp [of "map rev whiteSpace" "rev (trimStart s)"]
    by (auto simp: trim_def trimEnd_def)
  then have "rev (rev (trimStart s)) = rev (concat rs @ rev (trim s))" by simp
  then have "prefix (trim s) (trimStart s)" by simp
  with p have "prefix w (trimStart s)" by (rule prefix_order.trans)
  with w show False
    using strip_no_prefix [of w whiteSpace s] whiteSpace_nonempty [of w]
    by (simp add: trimStart_def)
qed

lemma trim_no_trailing: "w \<in> set whiteSpace \<Longrightarrow> \<not> suffix w (trim s)"
proof
  assume w: "w \<in> set whiteSpace" and "suffix w (trim s)"
  then have "prefix (rev w) (strip (map rev whiteSpace) (rev (trimStart s)))"
    by (simp add: trim_def trimEnd_def suffix_to_prefix)
  moreover from w have "rev w \<in> set (map rev whiteSpace)" "rev w \<noteq> []"
    using whiteSpace_nonempty [of w] by auto
  ultimately show False
    using strip_no_prefix by blast
qed

section \<open>The retry wrapper\<close>

declare withRetry_loop.simps [simp del]

lemma maxRetries_simps: "maxRetries = 3" "maxRetries - 1 = 2"
  by (simp_all add: maxRetries_def)

text \<open>The loop runs at most three times; unrolled, \<open>withRetry\<close> is this decision tree.\<close>

lemma withRetry_unfold:
  "withRetry operation =
     (case operation 0 of
        Inr v \<Rightarrow> (Inr v, [Invoke 0])
      | Inl e0 \<Rightarrow>
          if isRateLimit (toError e0) then
            (case operation 1 of
               Inr v \<Rightarrow> (Inr v, [Invoke 0, Sleep 1000, Invoke 1])
             | Inl e1 \<Rightarrow>
                 if isRateLimit (toError e1) then
                   (case operation 2 of
                      Inr v \<Rightarrow> (Inr v, [Invoke 0, Sleep 1000, Invoke 1, Sleep 2000, Invoke 2])
                    | Inl e2 \<Rightarrow>
                        (Inl (Err (toError e2)),
                         [Invoke 0, Sleep 1000, Invoke 1, Sleep 2000, Invoke 2]))
                 else (Inl (Err (toError e1)), [Invoke 0, Sleep 1000, Invoke 1]))
          else (Inl (Err (toError e0)), [Invoke 0]))"
proof -
  have third: "withRetry_loop operation 2 le log =
      (case operation 2 of
         Inr v \<Rightarrow> (Inr v, log @ [Invoke 2])
       | Inl e2 \<Rightarrow> (Inl (Err (toError e2)), log @ [Invoke 2]))" for le log
    by (subst withRetry_loop.simps) (simp add: maxRetries_simps split: sum.splits)
  have second: "withRetry_loop operation 1 le log =
      (case operation 1 of
         Inr v \<Rightarrow> (Inr v, log @ [Invoke 1])
       | Inl e1 \<Rightarrow>
           if isRateLimit (toError e1) then
             withRetry_loop operation 2 (Some (toError e1)) (log @ [Invoke 1, Sleep 2000])
           else (Inl (Err (toError e1)), log @ [Invoke 1]))" for le log
    by (subst withRetry_loop.simps)
       (simp add: maxRetries_simps baseDelay_def Let_def numeral_2_eq_2 split: sum.splits)
  have first: "withRetry_loop operation 0 le log =
      (case operation 0 of
         Inr v \<Rightarrow> (Inr v, log @ [Invoke 0])
       | Inl e0 \<Rightarrow>
           if isRateLimit (toError e0) then
             withRetry_loop operation 1 (Some (toError e0)) (log @ [Invoke 0, Sleep 1000])
           else (Inl (Err (toError e0)), log @ [Invoke 0]))" for le log
    by (subst withRetry_loop.simps)
       (simp add: maxRetries_simps baseDelay_def Let_def split: sum.splits)
  show ?thesis
    unfolding withRetry_def first second third
    by (simp split: sum.splits)
qed

text \<open>The local \<open>isRateLimit\<close> in words: a search of the message text.\<close>

lemma isRateLimit_textual:
  "isRateLimit e \<longleftrightarrow>
     sublist ''429'' (message e) \<or> (\<exists>t. sublist t (message e) \<and> toLowerCase t = ''rate limit'')"
  unfolding isRateLimit_def includes_str_iff_sublist toLowerCase_def sublist_map_iff ..

lemma isRateLimit_status: "isRateLimit (e\<lparr>status := s\<rparr>) = isRateLimit e"
  by (simp add: isRateLimit_def)

lemma too_many_requests_isRateLimit: "isRateLimit too_many_requests"
  by (simp add: isRateLimit_def too_many_requests_def)

lemma unauthorized_not_isRateLimit: "\<not> isRateLimit unauthorized"
  by (simp add: isRateLimit_def unauthorized_def toLowerCase_def lowerChar_def)

text \<open>Which invocations the wrapper makes.\<close>

lemma invoked_iff:
  "Invoke k \<in> set (snd (withRetry operation)) \<longleftrightarrow>
     k = 0 \<or>
     k = 1 \<and> (\<exists>e0. operation 0 = Inl e0 \<and> isRateLimit (toError e0)) \<or>
     k = 2 \<and> (\<exists>e0. operation 0 = Inl e0 \<and> isRateLimit (toError e0)) \<and>
       (\<exists>e1. operation 1 = Inl e1 \<and> isRateLimit (toError e1))"
  unfolding withRetry_unfold
  by (cases "operation 0"; cases "operation 1"; cases "operation 2") auto

text \<open>
  An invocation that succeeds, or fails with an error that is no rate limit, is the last
  thing the wrapper does.
\<close>

lemma withRetry_stops_at:
  assumes "Invoke k \<in> set (snd (withRetry operation))"
    and "case operation k of Inr v \<Rightarrow> True | Inl e \<Rightarrow> \<not> isRateLimit (toError e)"
  shows "fst (withRetry operation) =
           (case operation k of Inr v \<Rightarrow> Inr v | Inl e \<Rightarrow> Inl (Err (toError e)))"
    and "last (snd (withRetry operation)) = Invoke k"
    and "\<forall>j. Invoke j \<in> set (snd (withRetry operation)) \<longrightarrow> j \<le> k"
proof -
  from assms(1) consider
      (zero) "k = 0"
    | (one) e0 where "k = 1" "operation 0 = Inl e0" "isRateLimit (toError e0)"
    | (two) e0 e1 where "k = 2" "operation 0 = Inl e0" "isRateLimit (toError e0)"
        "operation 1 = Inl e1" "isRateLimit (toError e1)"
    unfolding invoked_iff by blast
  then have "fst (withRetry operation) =
           (case operation k of Inr v \<Rightarrow> Inr v | Inl e \<Rightarrow> Inl (Err (toError e))) \<and>
         last (snd (withRetry operation)) = Invoke k \<and>
         (\<forall>j. Invoke j \<in> set (snd (withRetry operation)) \<longrightarrow> j \<le> k)"
  proof cases
    case zero
    with assms(2) show ?thesis
      by (cases "operation 0") (simp_all add: withRetry_unfold)
  next
    case one
    with assms(2) show ?thesis
      by (cases "operation 1") (auto simp: withRetry_unfold)
  next
    case two
    with assms(2) show ?thesis
      by (cases "operation 2") (auto simp: withRetry_unfold)
  qed
  then show "fst (withRetry operation) =
           (case operation k of Inr v \<Rightarrow> Inr v | Inl e \<Rightarrow> Inl (Err (toError e)))"
    and "last (snd (withRetry operation)) = Invoke k"
    and "\<forall>j. Invoke j \<in> set (snd (withRetry operation)) \<longrightarrow> j \<le> k"
    by simp_all
qed

lemma withRetry_status_irrelevant:
  "snd (withRetry (operation(k := Inl (Err (e\<lparr>status := s\<rparr>))))) =
   snd (withRetry (operation(k := Inl (Err e))))"
  unfolding withRetry_unfold
  by (cases "operation 0"; cases "operation 1"; cases "operation 2")
     (simp_all add: isRateLimit_status)

text \<open>
  Claim C1, as the code has it. When every invocation fails with a rate-limit error,
  \<open>withRetry\<close> invokes the operation exactly three times, sleeps 1000 ms before the second
  invocation and 2000 ms before the third, does not sleep after the third, and throws the
  error of the third invocation.
\<close>

theorem withRetry_rate_limited_throughout:
  assumes "\<forall>k. \<exists>e. operation k = Inl e \<and> isRateLimit (toError e)"
  shows "\<exists>e. operation 2 = Inl e \<and>
           withRetry operation =
             (Inl (Err (toError e)), [Invoke 0, Sleep 1000, Invoke 1, Sleep 2000, Invoke 2])"
proof -
  from assms obtain e0 where e0: "operation 0 = Inl e0" "isRateLimit (toError e0)"
    by blast
  from assms obtain e1 where e1: "operation 1 = Inl e1" "isRateLimit (toError e1)"
    by blast
  from assms obtain e2 where e2: "operation 2 = Inl e2"
    by blast
  from e0 e1 e2 show ?thesis
    by (simp add: withRetry_unfold)
qed

text \<open>The theorem at an operation that the service answers with 429 every time.\<close>

theorem withRetry_rate_limited_throughout_witness:
  "withRetry always_rate_limited =
     (Inl (Err too_many_requests), [Invoke 0, Sleep 1000, Invoke 1, Sleep 2000, Invoke 2])"
proof -
  have "\<forall>k. \<exists>e. always_rate_limited k = Inl e \<and> isRateLimit (toError e)"
    by (simp add: always_rate_limited_def too_many_requests_isRateLimit)
  from withRetry_rate_limited_throughout [OF this] show ?thesis
    by (simp add: always_rate_limited_def)
qed

text \<open>
  Claim C1 as it is written names three delays, 1 s, 2 s and 4 s. With three attempts there
  are two retries: on the operation that is rate-limited every time the wrapper sleeps
  1000 ms and 2000 ms and never 4000 ms.
\<close>

theorem withRetry_no_third_delay:
  "isRateLimit (toError (Err too_many_requests)) \<and>
   snd (withRetry always_rate_limited) = [Invoke 0, Sleep 1000, Invoke 1, Sleep 2000, Invoke 2] \<and>
   Sleep 4000 \<notin> set (snd (withRetry always_rate_limited))"
  by (simp add: withRetry_unfold always_rate_limited_def too_many_requests_isRateLimit)

text \<open>
  Claim C2. Take any invocation \<open>k\<close> that \<open>withRetry\<close> makes. If it succeeds with \<open>v\<close>, the
  wrapper returns \<open>v\<close>; if it fails with an \<open>Error\<close> that is not identified as a rate
  limit, the wrapper throws that error. In both cases invocation \<open>k\<close> is the last event:
  there is no sleep and no later invocation. A thrown value that is no \<open>Error\<close> is treated
  the same way, after it is wrapped into an \<open>Error\<close> of its string rendering.
\<close>

theorem withRetry_returns_or_propagates:
  assumes "Invoke k \<in> set (snd (withRetry operation))"
  shows "(operation k = Inr v \<longrightarrow>
            fst (withRetry operation) = Inr v \<and>
            last (snd (withRetry operation)) = Invoke k \<and>
            (\<forall>j. Invoke j \<in> set (snd (withRetry operation)) \<longrightarrow> j \<le> k)) \<and>
         (operation k = Inl (Err e) \<and> \<not> isRateLimit e \<longrightarrow>
            fst (withRetry operation) = Inl (Err e) \<and>
            last (snd (withRetry operation)) = Invoke k \<and>
            (\<forall>j. Invoke j \<in> set (snd (withRetry operation)) \<longrightarrow> j \<le> k)) \<and>
         (operation k = Inl (NonError s) \<and> \<not> isRateLimit (new_Error s) \<longrightarrow>
            fst (withRetry operation) = Inl (Err (new_Error s)) \<and>
            last (snd (withRetry operation)) = Invoke k \<and>
            (\<forall>j. Invoke j \<in> set (snd (withRetry operation)) \<longrightarrow> j \<le> k))"
proof (intro conjI impI)
  assume "operation k = Inr v"
  with withRetry_stops_at [OF assms]
  show "fst (withRetry operation) = Inr v"
    and "last (snd (withRetry operation)) = Invoke k"
    and "\<forall>j. Invoke j \<in> set (snd (withRetry operation)) \<longrightarrow> j \<le> k"
    by simp_all
next
  assume "operation k = Inl (Err e) \<and> \<not> isRateLimit e"
  with withRetry_stops_at [OF assms]
  show "fst (withRetry operation) = Inl (Err e)"
    and "last (snd (withRetry operation)) = Invoke k"
    and "\<forall>j. Invoke j \<in> set (snd (withRetry operation)) \<longrightarrow> j \<le> k"
    by simp_all
next
  assume "operation k = Inl (NonError s) \<and> \<not> isRateLimit (new_Error s)"
  with withRetry_stops_at [OF assms]
  show "fst (withRetry operation) = Inl (Err (new_Error s))"
    and "last (snd (withRetry operation)) = Invoke k"
    and "\<forall>j. Invoke j \<in> set (snd (withRetry operation)) \<longrightarrow> j \<le> k"
    by simp_all
qed

text \<open>
  The theorem at three operations: one that succeeds on its second invocation, one whose
  second invocation is refused with 401, and one that throws a string at once.
\<close>

theorem withRetry_returns_or_propagates_witness:
  "fst (withRetry retried_once) = Inr ''A cat on a sofa.'' \<and>
   last (snd (withRetry retried_once)) = Invoke 1 \<and>
   fst (withRetry limited_then_unauthorized) = Inl (Err unauthorized) \<and>
   last (snd (withRetry limited_then_unauthorized)) = Invoke 1 \<and>
   fst (withRetry throws_string) = Inl (Err (new_Error ''boom'')) \<and>
   last (snd (withRetry throws_string)) = Invoke 0"
proof -
  have a: "Invoke 1 \<in> set (snd (withRetry retried_once))"
    by (simp add: invoked_iff retried_once_def too_many_requests_isRateLimit)
  have a': "retried_once 1 = Inr ''A cat on a sofa.''"
    by (simp add: retried_once_def)
  have b: "Invoke 1 \<in> set (snd (withRetry limited_then_unauthorized))"
    by (simp add: invoked_iff limited_then_unauthorized_def too_many_requests_isRateLimit)
  have b': "limited_then_unauthorized 1 = Inl (Err unauthorized) \<and> \<not> isRateLimit unauthorized"
    by (simp add: limited_then_unauthorized_def unauthorized_not_isRateLimit)
  have c: "Invoke 0 \<in> set (snd (withRetry throws_string))"
    by (simp add: invoked_iff)
  have c': "throws_string 0 = Inl (NonError ''boom'') \<and> \<not> isRateLimit (new_Error ''boom'')"
    by (simp add: throws_string_def isRateLimit_def new_Error_def toLowerCase_def lowerChar_def)
  from withRetry_returns_or_propagates [OF a, where v = "''A cat on a sofa.''"] a'
    withRetry_returns_or_propagates [OF b, where e = unauthorized] b'
    withRetry_returns_or_propagates [OF c, where s = "''boom''"] c'
  show ?thesis by blast
qed

text \<open>
  Claim C8, as the code has it. Take an invocation \<open>k\<close> that \<open>withRetry\<close> makes and that
  fails with an error. The operation is invoked once more exactly when an attempt remains
  and the message of the error contains \<open>429\<close> or, in any mix of upper and lower case,
  \<open>rate limit\<close>. The status of the error plays no part: with any other status in its place
  the wrapper makes the same invocations and sleeps. So an error whose message merely
  mentions \<open>429\<close> is retried as a rate limit, as long as an attempt remains.
\<close>

theorem rate_limit_detection_textual:
  assumes "Invoke k \<in> set (snd (withRetry operation))" and "operation k = Inl (Err e)"
  shows "(Invoke (Suc k) \<in> set (snd (withRetry operation)) \<longleftrightarrow>
            Suc k < maxRetries \<and>
            (sublist ''429'' (message e) \<or>
             (\<exists>t. sublist t (message e) \<and> toLowerCase t = ''rate limit''))) \<and>
         snd (withRetry (operation(k := Inl (Err (e\<lparr>status := s\<rparr>))))) =
           snd (withRetry operation)"
proof -
  have "Invoke (Suc k) \<in> set (snd (withRetry operation)) \<longleftrightarrow>
          Suc k < maxRetries \<and> isRateLimit e"
    using assms unfolding invoked_iff [of "Suc k"] invoked_iff [of k] maxRetries_def
    by auto
  moreover have "operation(k := Inl (Err e)) = operation"
    using assms(2) by auto
  ultimately show ?thesis
    using withRetry_status_irrelevant [of operation k s e]
    by (simp add: isRateLimit_textual)
qed

text \<open>
  The theorem at an operation that fails each time with a 400 whose message names the file
  \<open>photo_4291.png\<close>: it is invoked again, and would be with the status 429 as well.
\<close>

theorem rate_limit_detection_textual_witness:
  "Invoke (Suc 0) \<in> set (snd (withRetry always_misread)) \<and>
   status misread_error = Some 400 \<and>
   sublist ''429'' (message misread_error) \<and>
   snd (withRetry (always_misread(0 := Inl (Err (misread_error\<lparr>status := Some 429\<rparr>))))) =
     snd (withRetry always_misread)"
proof -
  have a: "Invoke 0 \<in> set (snd (withRetry always_misread))"
    by (simp add: invoked_iff)
  have b: "always_misread 0 = Inl (Err misread_error)"
    by (simp add: always_misread_def)
  have c: "sublist ''429'' (message misread_error)"
    unfolding includes_str_iff_sublist [symmetric] by (simp add: misread_error_def)
  have d: "Suc 0 < maxRetries"
    by (simp add: maxRetries_def)
  from rate_limit_detection_textual [OF a b, where s = "Some 429"] c d show ?thesis
    by (simp add: misread_error_def)
qed

text \<open>
  Claim C8 as it is written lets the message alone decide. On the third attempt it does
  not: the error of the operation that is rate-limited every time contains \<open>429\<close>, and
  there is no fourth invocation.
\<close>

theorem last_attempt_not_retried:
  "always_rate_limited 2 = Inl (Err too_many_requests) \<and>
   includes_str (message too_many_requests) ''429'' \<and>
   Invoke 2 \<in> set (snd (withRetry always_rate_limited)) \<and>
   Invoke 3 \<notin> set (snd (withRetry always_rate_limited))"
proof -
  have "includes_str (message too_many_requests) ''429''"
    by (simp add: too_many_requests_def)
  moreover have "snd (withRetry always_rate_limited) =
      [Invoke 0, Sleep 1000, Invoke 1, Sleep 2000, Invoke 2]"
    by (simp add: withRetry_unfold always_rate_limited_def too_many_requests_isRateLimit)
  ultimately show ?thesis
    by (simp add: always_rate_limited_def)
qed

section \<open>The caption requests\<close>

lemma generateCaption_log:
  "snd (generateCaption api service imageBuffer mimeType) =
   snd (withRetry (caption_operation api service imageBuffer mimeType))"
  by (simp add: generateCaption_def split: prod.splits sum.splits)

lemma generateCaptionWithPrompt_log:
  "snd (generateCaptionWithPrompt api service imageBuffer mimeType customPrompt) =
   snd (withRetry (prompt_operation api service imageBuffer mimeType customPrompt))"
  by (simp add: generateCaptionWithPrompt_def split: prod.splits sum.splits)

lemma generateCaption_fst:
  "fst (generateCaption api service imageBuffer mimeType) =
     (case fst (withRetry (caption_operation api service imageBuffer mimeType)) of
        Inr c \<Rightarrow> Inr c
      | Inl e \<Rightarrow> Inl (generateCaption_catch e))"
  by (simp add: generateCaption_def split: prod.splits sum.splits)

lemma generateCaptionWithPrompt_fst:
  "fst (generateCaptionWithPrompt api service imageBuffer mimeType customPrompt) =
     (case fst (withRetry (prompt_operation api service imageBuffer mimeType customPrompt)) of
        Inr c \<Rightarrow> Inr c
      | Inl e \<Rightarrow> Inl (generateCaptionWithPrompt_catch e))"
  by (simp add: generateCaptionWithPrompt_def split: prod.splits sum.splits)

lemma no_caption_not_isRateLimit:
  "\<not> isRateLimit (new_Error ''No caption generated from the AI model'')"
  by (simp add: isRateLimit_def new_Error_def toLowerCase_def lowerChar_def)

lemma no_response_not_isRateLimit:
  "\<not> isRateLimit (new_Error ''No response generated from the AI model'')"
  by (simp add: isRateLimit_def new_Error_def toLowerCase_def lowerChar_def)

lemma no_caption_catch:
  "generateCaption_catch (Err (new_Error ''No caption generated from the AI model'')) =
   Err (new_Error ''Failed to generate caption: No caption generated from the AI model'')"
  by (simp add: new_Error_def)

lemma no_response_catch:
  "generateCaptionWithPrompt_catch (Err (new_Error ''No response generated from the AI model'')) =
   Err (new_Error ''No response generated from the AI model'')"
  by (simp add: new_Error_def)

lemma generateCaption_response:
  assumes "Invoke k \<in> set (snd (generateCaption api service imageBuffer mimeType))"
    and "api service (caption_chat_request service imageBuffer mimeType) k = Inr choices"
  shows "fst (generateCaption api service imageBuffer mimeType) =
     (case first_content choices of
        None \<Rightarrow>
          Inl (Err (new_Error
            ''Failed to generate caption: No caption generated from the AI model''))
      | Some c \<Rightarrow>
          if c = [] then
            Inl (Err (new_Error
              ''Failed to generate caption: No caption generated from the AI model''))
          else Inr (trim c))"
proof -
  let ?op = "caption_operation api service imageBuffer mimeType"
  from assms(1) have inv: "Invoke k \<in> set (snd (withRetry ?op))"
    by (simp add: generateCaption_log)
  have opk: "?op k =
     (case first_content choices of
        None \<Rightarrow> Inl (Err (new_Error ''No caption generated from the AI model''))
      | Some c \<Rightarrow>
          if c = [] then Inl (Err (new_Error ''No caption generated from the AI model''))
          else Inr (trim c))"
    by (simp add: caption_operation_def assms(2))
  then have "case ?op k of Inr v \<Rightarrow> True | Inl e \<Rightarrow> \<not> isRateLimit (toError e)"
    by (simp add: no_caption_not_isRateLimit split: option.splits)
  from withRetry_stops_at(1) [OF inv this]
  show ?thesis
    by (simp add: generateCaption_fst opk no_caption_catch
          del: generateCaption_catch.simps split: option.splits)
qed

lemma generateCaptionWithPrompt_response:
  assumes "Invoke k \<in>
      set (snd (generateCaptionWithPrompt api service imageBuffer mimeType customPrompt))"
    and "api service (prompt_chat_request service imageBuffer mimeType customPrompt) k =
      Inr choices"
  shows "fst (generateCaptionWithPrompt api service imageBuffer mimeType customPrompt) =
     (case first_content choices of
        None \<Rightarrow> Inl (Err (new_Error ''No response generated from the AI model''))
      | Some c \<Rightarrow>
          if c = [] then Inl (Err (new_Error ''No response generated from the AI model''))
          else Inr (trim c))"
proof -
  let ?op = "prompt_operation api service imageBuffer mimeType customPrompt"
  from assms(1) have inv: "Invoke k \<in> set (snd (withRetry ?op))"
    by (simp add: generateCaptionWithPrompt_log)
  have opk: "?op k =
     (case first_content choices of
        None \<Rightarrow> Inl (Err (new_Error ''No response generated from the AI model''))
      | Some c \<Rightarrow>
          if c = [] then Inl (Err (new_Error ''No response generated from the AI model''))
          else Inr (trim c))"
    by (simp add: prompt_operation_def assms(2))
  then have "case ?op k of Inr v \<Rightarrow> True | Inl e \<Rightarrow> \<not> isRateLimit (toError e)"
    by (simp add: no_response_not_isRateLimit split: option.splits)
  from withRetry_stops_at(1) [OF inv this]
  show ?thesis
    by (simp add: generateCaptionWithPrompt_fst opk no_response_catch
          del: generateCaptionWithPrompt_catch.simps split: option.splits)
qed

lemma trim_answer: "trim ('' A cat on a sofa.'' @ [CHR 0x0A]) = ''A cat on a sofa.''"
  by (simp add: trim_def trimStart_def trimEnd_def whiteSpace_def strip.simps)

lemma trim_blank: "trim '' '' = []"
  by (simp add: trim_def trimStart_def trimEnd_def whiteSpace_def strip.simps)

text \<open>
  Claim C7. Take any call to the model that \<open>generateCaption\<close> or
  \<open>generateCaptionWithPrompt\<close> makes and that the model answers. If the first choice has
  content that is not empty, the function returns that content trimmed. If it has none
  (no choice, no message, \<open>null\<close>, or the empty string) the function throws an \<open>Error\<close>.
\<close>

theorem caption_is_trimmed_content:
  "(Invoke k \<in> set (snd (generateCaption api service imageBuffer mimeType)) \<and>
    api service (caption_chat_request service imageBuffer mimeType) k = Inr choices \<longrightarrow>
      fst (generateCaption api service imageBuffer mimeType) =
        (case first_content choices of
           None \<Rightarrow>
             Inl (Err (new_Error
               ''Failed to generate caption: No caption generated from the AI model''))
         | Some c \<Rightarrow>
             if c = [] then
               Inl (Err (new_Error
                 ''Failed to generate caption: No caption generated from the AI model''))
             else Inr (trim c))) \<and>
   (Invoke k \<in>
      set (snd (generateCaptionWithPrompt api service imageBuffer mimeType customPrompt)) \<and>
    api service (prompt_chat_request service imageBuffer mimeType customPrompt) k =
      Inr choices \<longrightarrow>
      fst (generateCaptionWithPrompt api service imageBuffer mimeType customPrompt) =
        (case first_content choices of
           None \<Rightarrow> Inl (Err (new_Error ''No response generated from the AI model''))
         | Some c \<Rightarrow>
             if c = [] then Inl (Err (new_Error ''No response generated from the AI model''))
             else Inr (trim c)))"
  using generateCaption_response [of k api service imageBuffer mimeType choices]
    generateCaptionWithPrompt_response [of k api service imageBuffer mimeType customPrompt choices]
  by blast

text \<open>
  Both functions call the model at least once.
\<close>

lemma generateCaption_invokes:
  "Invoke 0 \<in> set (snd (generateCaption api service imageBuffer mimeType))"
  "Invoke 0 \<in> set (snd (generateCaptionWithPrompt api service imageBuffer mimeType customPrompt))"
  by (simp_all add: generateCaption_log generateCaptionWithPrompt_log invoked_iff)

text \<open>
  The theorem at a model that answers \<open>" A cat on a sofa.\\n"\<close> and at one whose message has
  no content.
\<close>

theorem caption_is_trimmed_content_witness:
  "fst (generateCaption answering_api example_service png_bytes ''image/png'') =
     Inr ''A cat on a sofa.'' \<and>
   fst (generateCaptionWithPrompt answering_api example_service png_bytes ''image/png''
          ''What is this?'') = Inr ''A cat on a sofa.'' \<and>
   fst (generateCaption silent_api example_service png_bytes ''image/png'') =
     Inl (Err (new_Error
       ''Failed to generate caption: No caption generated from the AI model'')) \<and>
   fst (generateCaptionWithPrompt silent_api example_service png_bytes ''image/png''
          ''What is this?'') =
     Inl (Err (new_Error ''No response generated from the AI model''))"
proof -
  note inv = generateCaption_invokes
  have a: "answering_api example_service req 0 =
      Inr [\<lparr>choice_message = Some \<lparr>content = Some ('' A cat on a sofa.'' @ [CHR 0x0A])\<rparr>\<rparr>]"
    for req
    by (simp add: answering_api_def)
  have s: "silent_api example_service req 0 =
      Inr [\<lparr>choice_message = Some \<lparr>content = None\<rparr>\<rparr>]" for req
    by (simp add: silent_api_def)
  from caption_is_trimmed_content
      [where k = 0 and api = answering_api and service = example_service
         and imageBuffer = png_bytes and mimeType = "''image/png''"
         and customPrompt = "''What is this?''"
         and choices = "[\<lparr>choice_message = Some \<lparr>content = Some ('' A cat on a sofa.'' @ [CHR 0x0A])\<rparr>\<rparr>]"]
    caption_is_trimmed_content
      [where k = 0 and api = silent_api and service = example_service
         and imageBuffer = png_bytes and mimeType = "''image/png''"
         and customPrompt = "''What is this?''"
         and choices = "[\<lparr>choice_message = Some \<lparr>content = None\<rparr>\<rparr>]"]
  show ?thesis
    by (simp add: inv a s trim_answer [simplified])
qed

section \<open>The handlers and the routes\<close>

lemma validateFile_valid_iff:
  "isValid (validateFile req_file) \<longleftrightarrow>
     (\<exists>file. req_file = Some file \<and> buffer file \<noteq> [] \<and>
        mimetype file \<in> set SUPPORTED_IMAGE_TYPES)"
  by (cases req_file) simp_all

lemma validateFile_invalid_error:
  "\<not> isValid (validateFile req_file) \<Longrightarrow> \<exists>m. validation_error (validateFile req_file) = Some m"
  by (cases req_file) (simp_all split: if_splits)

lemma post_caption_invalid:
  "\<not> isValid (validateFile req_file) \<Longrightarrow>
   post_caption env api now req_file =
     (\<lparr>http_status = 400,
       body = \<lparr>success = False, caption = None,
               error = validation_error (validateFile req_file), timestamp = now\<rparr>\<rparr>, [])"
  by (simp add: post_caption_def Let_def)

lemma post_custom_invalid:
  "\<not> isValid (validateFile req_file) \<Longrightarrow>
   post_custom env api now req_file req_prompt =
     (\<lparr>http_status = 400,
       body = \<lparr>success = False, caption = None,
               error = validation_error (validateFile req_file), timestamp = now\<rparr>\<rparr>, [])"
  by (simp add: post_custom_def Let_def)

lemma post_caption_valid:
  assumes "isValid (validateFile (Some file))"
  shows "post_caption env api now (Some file) =
     (case getVisionService env of
        Inl e \<Rightarrow>
          (handler_catch \<lparr>success = False, caption = None, error = None, timestamp = now\<rparr> e, [])
      | Inr visionService \<Rightarrow>
          (case fst (generateCaption api visionService (buffer file) (mimetype file)) of
             Inr c \<Rightarrow>
               (\<lparr>http_status = 200,
                 body = \<lparr>success = True, caption = Some c, error = None, timestamp = now\<rparr>\<rparr>,
                snd (generateCaption api visionService (buffer file) (mimetype file)))
           | Inl e \<Rightarrow>
               (handler_catch \<lparr>success = False, caption = None, error = None, timestamp = now\<rparr> e,
                snd (generateCaption api visionService (buffer file) (mimetype file)))))"
  using assms
  by (simp add: post_caption_def Let_def split: sum.splits prod.splits del: validateFile.simps)

lemma post_custom_blank:
  assumes "isValid (validateFile req_file)"
    and "req_prompt = None \<or> (\<exists>p. req_prompt = Some (Str p) \<and> trim p = [])"
  shows "post_custom env api now req_file req_prompt =
     (\<lparr>http_status = 400,
       body = \<lparr>success = False, caption = None,
               error = Some ''Custom prompt is required'', timestamp = now\<rparr>\<rparr>, [])"
  using assms
  by (auto simp: post_custom_def Let_def)

text \<open>A prompt that is no string: the \<open>TypeError\<close> of \<open>trim\<close>, answered with 500.\<close>

lemma post_custom_not_string:
  assumes "isValid (validateFile req_file)"
    and "req_prompt = Some (Arr items) \<or> req_prompt = Some (Obj entries)"
  shows "post_custom env api now req_file req_prompt =
     (\<lparr>http_status = 500,
       body = \<lparr>success = False, caption = None,
               error = Some ''customPrompt.trim is not a function'', timestamp = now\<rparr>\<rparr>, [])"
  using assms
  by (auto simp: post_custom_def Let_def handler_catch_def trim_not_a_function_def
        new_Error_def)

lemma post_custom_valid:
  assumes "isValid (validateFile (Some file))" and "trim p \<noteq> []"
  shows "post_custom env api now (Some file) (Some (Str p)) =
     (case getVisionService env of
        Inl e \<Rightarrow>
          (handler_catch \<lparr>success = False, caption = None, error = None, timestamp = now\<rparr> e, [])
      | Inr visionService \<Rightarrow>
          (case fst (generateCaptionWithPrompt api visionService (buffer file) (mimetype file)
                  (trim p)) of
             Inr c \<Rightarrow>
               (\<lparr>http_status = 200,
                 body = \<lparr>success = True, caption = Some c, error = None, timestamp = now\<rparr>\<rparr>,
                snd (generateCaptionWithPrompt api visionService (buffer file) (mimetype file)
                  (trim p)))
           | Inl e \<Rightarrow>
               (handler_catch \<lparr>success = False, caption = None, error = None, timestamp = now\<rparr> e,
                snd (generateCaptionWithPrompt api visionService (buffer file) (mimetype file)
                  (trim p)))))"
proof -
  from assms(2) have "p \<noteq> []"
    by (auto simp: trim_def trimStart_def trimEnd_def strip_Nil)
  with assms show ?thesis
    by (simp add: post_custom_def Let_def split: sum.splits prod.splits del: validateFile.simps)
qed

lemma handler_catch_shape:
  "handler_catch \<lparr>success = False, caption = None, error = None, timestamp = now\<rparr> e =
     \<lparr>http_status = 500,
      body = \<lparr>success = False, caption = None,
              error = Some (case e of Err er \<Rightarrow> message er
                                     | NonError s \<Rightarrow> ''An unexpected error occurred''),
              timestamp = now\<rparr>\<rparr>"
  by (simp add: handler_catch_def)

text \<open>
  Each handler, each route and the middleware answer in one of two shapes: status 200 with
  \<open>success\<close> and a caption, or status 400 or 500 with an error message.
\<close>

lemma post_caption_shape:
  "(\<exists>c. fst (post_caption env api now req_file) =
      \<lparr>http_status = 200,
       body = \<lparr>success = True, caption = Some c, error = None, timestamp = now\<rparr>\<rparr>) \<or>
   (\<exists>st m. (st = 400 \<or> st = 500) \<and> fst (post_caption env api now req_file) =
      \<lparr>http_status = st,
       body = \<lparr>success = False, caption = None, error = Some m, timestamp = now\<rparr>\<rparr>)"
proof (cases "isValid (validateFile req_file)")
  case False
  with validateFile_invalid_error [OF False] show ?thesis
    by (auto simp: post_caption_invalid)
next
  case True
  then obtain fl where "req_file = Some fl"
    by (auto simp: validateFile_valid_iff)
  with True show ?thesis
    by (simp add: post_caption_valid handler_catch_shape split: sum.splits
             del: validateFile.simps)
qed

lemma post_custom_shape:
  "(\<exists>c. fst (post_custom env api now req_file req_prompt) =
      \<lparr>http_status = 200,
       body = \<lparr>success = True, caption = Some c, error = None, timestamp = now\<rparr>\<rparr>) \<or>
   (\<exists>st m. (st = 400 \<or> st = 500) \<and> fst (post_custom env api now req_file req_prompt) =
      \<lparr>http_status = st,
       body = \<lparr>success = False, caption = None, error = Some m, timestamp = now\<rparr>\<rparr>)"
proof (cases "isValid (validateFile req_file)")
  case False
  with validateFile_invalid_error [OF False] show ?thesis
    by (auto simp: post_custom_invalid)
next
  case True
  then obtain fl where f: "req_file = Some fl"
    by (auto simp: validateFile_valid_iff)
  consider
      (blank) "req_prompt = None \<or> (\<exists>p. req_prompt = Some (Str p) \<and> trim p = [])"
    | (given) p where "req_prompt = Some (Str p)" "trim p \<noteq> []"
    | (array) vs where "req_prompt = Some (Arr vs)"
    | (object) fs where "req_prompt = Some (Obj fs)"
  proof (cases req_prompt)
    case None
    then show ?thesis by (intro blank) simp
  next
    case (Some v)
    show ?thesis
    proof (cases v)
      case (Str p)
      show ?thesis
      proof (cases "trim p = []")
        case True
        with Some Str show ?thesis by (intro blank) simp
      next
        case False
        with Some Str show ?thesis by (intro given) simp_all
      qed
    next
      case (Arr vs)
      with Some show ?thesis by (intro array) simp
    next
      case (Obj fs)
      with Some show ?thesis by (intro object) simp
    qed
  qed
  then show ?thesis
  proof cases
    case blank
    with True show ?thesis
      by (simp add: post_custom_blank)
  next
    case given
    with True f show ?thesis
      by (simp add: post_custom_valid handler_catch_shape split: sum.splits
               del: validateFile.simps)
  next
    case array
    with True have "post_custom env api now req_file req_prompt =
     (\<lparr>http_status = 500,
       body = \<lparr>success = False, caption = None,
               error = Some ''customPrompt.trim is not a function'', timestamp = now\<rparr>\<rparr>, [])"
      by (intro post_custom_not_string [where items = vs]) simp_all
    then show ?thesis by simp
  next
    case object
    with True have "post_custom env api now req_file req_prompt =
     (\<lparr>http_status = 500,
       body = \<lparr>success = False, caption = None,
               error = Some ''customPrompt.trim is not a function'', timestamp = now\<rparr>\<rparr>, [])"
      by (intro post_custom_not_string [where entries = fs]) simp_all
    then show ?thesis by simp
  qed
qed

lemma error_middleware_shape:
  "\<exists>st m. (st = 400 \<or> st = 500) \<and> error_middleware now err =
      \<lparr>http_status = st,
       body = \<lparr>success = False, caption = None, error = Some m, timestamp = now\<rparr>\<rparr>"
  by (cases err) (simp_all add: Let_def)

lemma route_caption_shape:
  "(\<exists>c. fst (route_caption env api now req) =
      \<lparr>http_status = 200,
       body = \<lparr>success = True, caption = Some c, error = None, timestamp = now\<rparr>\<rparr>) \<or>
   (\<exists>st m. (st = 400 \<or> st = 500) \<and> fst (route_caption env api now req) =
      \<lparr>http_status = st,
       body = \<lparr>success = False, caption = None, error = Some m, timestamp = now\<rparr>\<rparr>)"
proof (cases "upload_single req")
  case (Inl err)
  with error_middleware_shape [of now err] show ?thesis
    by (simp add: route_caption_def)
next
  case (Inr req_file)
  with post_caption_shape [of env api now req_file] show ?thesis
    by (simp add: route_caption_def)
qed

lemma route_custom_shape:
  "(\<exists>c. fst (route_custom env api now req) =
      \<lparr>http_status = 200,
       body = \<lparr>success = True, caption = Some c, error = None, timestamp = now\<rparr>\<rparr>) \<or>
   (\<exists>st m. (st = 400 \<or> st = 500) \<and> fst (route_custom env api now req) =
      \<lparr>http_status = st,
       body = \<lparr>success = False, caption = None, error = Some m, timestamp = now\<rparr>\<rparr>)"
proof (cases "upload_single req")
  case (Inl err)
  with error_middleware_shape [of now err] show ?thesis
    by (simp add: route_custom_def)
next
  case (Inr req_file)
  with post_custom_shape [of env api now req_file "body_prompt (prompt_fields req)"] show ?thesis
    by (simp add: route_custom_def)
qed

lemma SUPPORTED_joined:
  "join '', '' SUPPORTED_IMAGE_TYPES = ''image/jpeg, image/png, image/gif, image/webp''"
  by (simp add: SUPPORTED_IMAGE_TYPES_def)

text \<open>The type that multer reports, on three header values.\<close>

lemma file_mimetype_png: "file_mimetype ''image/png'' = ''image/png''"
  by (simp add: file_mimetype_def toLowerCase_def lowerChar_def trim_def trimStart_def
        trimEnd_def whiteSpace_def strip.simps)

lemma file_mimetype_text: "file_mimetype ''text/plain'' = ''text/plain''"
  by (simp add: file_mimetype_def toLowerCase_def lowerChar_def trim_def trimStart_def
        trimEnd_def whiteSpace_def strip.simps)

lemma file_mimetype_shouted: "file_mimetype ''IMAGE/PNG; charset=binary'' = ''image/png''"
  by (simp add: file_mimetype_def toLowerCase_def lowerChar_def trim_def trimStart_def
        trimEnd_def whiteSpace_def strip.simps)

lemma part_mimetype_png:
  "part_mimetype \<lparr>part_content_type = ''image/png'', part_data = d\<rparr> = ''image/png''"
  by (simp add: part_mimetype_def file_mimetype_png)

lemma part_mimetype_text:
  "part_mimetype \<lparr>part_content_type = ''text/plain'', part_data = d\<rparr> = ''text/plain''"
  by (simp add: part_mimetype_def file_mimetype_text)

lemma upload_single_none: "image_part req = None \<Longrightarrow> upload_single req = Inr None"
  by (simp add: upload_single_def)

lemma upload_single_accepted:
  assumes "image_part req = Some part" and "part_mimetype part \<in> set SUPPORTED_IMAGE_TYPES"
    and "length (part_data part) \<le> fileSize"
  shows "upload_single req =
           Inr (Some \<lparr>buffer = part_data part, mimetype = part_mimetype part\<rparr>)"
  using assms by (simp add: upload_single_def fileFilter_def)

lemma upload_single_wrong_type:
  assumes "image_part req = Some part" and "part_mimetype part \<notin> set SUPPORTED_IMAGE_TYPES"
  shows "upload_single req =
           Inl (OtherError (new_Error
             ''Invalid file type. Supported types: image/jpeg, image/png, image/gif, image/webp''))"
  using assms by (simp add: upload_single_def fileFilter_def SUPPORTED_joined)

lemma upload_single_too_large:
  assumes "image_part req = Some part" and "part_mimetype part \<in> set SUPPORTED_IMAGE_TYPES"
    and "fileSize < length (part_data part)"
  shows "upload_single req = Inl (MulterError ''LIMIT_FILE_SIZE'' ''File too large'')"
  using assms by (simp add: upload_single_def fileFilter_def)


lemma getVisionService_configured_env: "getVisionService configured_env = Inr example_service"
  by (simp add: getVisionService_def configured_env_def example_service_def)

text \<open>
  \<open>trim\<close> returns the empty string exactly on the strings of white space only.
\<close>

lemma trim_empty_iff: "trim s = [] \<longleftrightarrow> (\<exists>ts. set ts \<subseteq> set whiteSpace \<and> s = concat ts)"
proof
  assume e: "trim s = []"
  from trim_decomp [of s] obtain as bs where
    "set as \<subseteq> set whiteSpace" "set bs \<subseteq> set whiteSpace" "s = concat as @ trim s @ concat bs"
    by blast
  with e have "set (as @ bs) \<subseteq> set whiteSpace \<and> s = concat (as @ bs)"
    by simp
  then show "\<exists>ts. set ts \<subseteq> set whiteSpace \<and> s = concat ts"
    by blast
next
  assume "\<exists>ts. set ts \<subseteq> set whiteSpace \<and> s = concat ts"
  then show "trim s = []"
    by (auto simp: trim_whitespace_only)
qed

text \<open>
  What holds of claim C6. A request to \<open>POST /custom\<close> carries an image that multer and
  \<open>validateFile\<close> accept (a supported type, not empty, below the size limit). If it has no
  prompt field, or one prompt field that is empty or made of white space only, the response
  is 400 with \<open>success\<close> false and the message \<open>Custom prompt is required\<close>, and the model is
  never called.
\<close>

lemma single_prompt_required:
  assumes "image_part req = Some part"
    and "part_mimetype part \<in> set SUPPORTED_IMAGE_TYPES"
    and "part_data part \<noteq> []"
    and "length (part_data part) < fileSize"
    and "prompt_fields req = [] \<or> prompt_fields req = [''''] \<or>
         (\<exists>ts. set ts \<subseteq> set whiteSpace \<and> prompt_fields req = [concat ts])"
  shows "route_custom env api now req =
     (\<lparr>http_status = 400,
       body = \<lparr>success = False, caption = None,
               error = Some ''Custom prompt is required'', timestamp = now\<rparr>\<rparr>, [])"
proof -
  let ?f = "\<lparr>buffer = part_data part, mimetype = part_mimetype part\<rparr>"
  from assms(4) have "length (part_data part) \<le> fileSize"
    by simp
  with assms(1,2) have up: "upload_single req = Inr (Some ?f)"
    by (rule upload_single_accepted)
  from assms(2,3) have valid: "isValid (validateFile (Some ?f))"
    by simp
  have "trim [] = []"
    by (simp add: trim_def trimStart_def trimEnd_def strip_Nil)
  with assms(5) have "body_prompt (prompt_fields req) = None \<or>
      (\<exists>p. body_prompt (prompt_fields req) = Some (Str p) \<and> trim p = [])"
    by (auto simp: trim_whitespace_only)
  from post_custom_blank [OF valid this] up show ?thesis
    by (simp add: route_custom_def)
qed

lemma png_file_valid: "isValid (validateFile (Some png_file))"
  by (simp add: png_file_def png_bytes_def SUPPORTED_IMAGE_TYPES_def)

lemma upload_single_png: "upload_single png_upload = Inr (Some png_file)"
  by (simp add: upload_single_def png_upload_def png_file_def fileFilter_def
        SUPPORTED_IMAGE_TYPES_def png_bytes_def fileSize_def part_mimetype_png)

text \<open>Upper case and parameters in the header do not matter to the filter.\<close>

lemma upload_single_shouted_png: "upload_single shouted_png_upload = Inr (Some png_file)"
  by (simp add: upload_single_def shouted_png_upload_def png_file_def fileFilter_def
        SUPPORTED_IMAGE_TYPES_def png_bytes_def fileSize_def part_mimetype_def
        file_mimetype_shouted)

text \<open>
  Claim C6, at the input where the code departs from it. A PNG upload comes with two
  prompt fields, one empty and one a single space. Multer hands the handler the array of
  the two, which the cast \<open>as string\<close> does not turn away; \<open>!customPrompt\<close> is false on an
  array, \<open>customPrompt.trim()\<close> throws, and the response is 500. The model is not called.
\<close>

theorem repeated_blank_prompt_status_500:
  "prompt_fields twice_blank_upload = ['''', '' ''] \<and>
   upload_single twice_blank_upload = Inr (Some png_file) \<and>
   isValid (validateFile (Some png_file)) \<and>
   route_custom env api now twice_blank_upload =
     (\<lparr>http_status = 500,
       body = \<lparr>success = False, caption = None,
               error = Some ''customPrompt.trim is not a function'', timestamp = now\<rparr>\<rparr>, [])"
proof -
  have sent: "prompt_fields twice_blank_upload = ['''', '' '']"
    by (simp add: twice_blank_upload_def)
  have up: "upload_single twice_blank_upload = Inr (Some png_file)"
    using upload_single_png by (simp add: upload_single_def twice_blank_upload_def)
  have "body_prompt (prompt_fields twice_blank_upload) = Some (Arr ['''', '' '']) \<or>
        body_prompt (prompt_fields twice_blank_upload) = Some (Obj [])"
    by (simp add: sent)
  from post_custom_not_string [OF png_file_valid this, of env api now] sent up png_file_valid
  show ?thesis
    by (simp add: route_custom_def)
qed

lemma generateCaption_answering:
  "generateCaption answering_api example_service png_bytes ''image/png'' =
     (Inr ''A cat on a sofa.'', [Invoke 0])"
  by (simp add: generateCaption_def withRetry_unfold caption_operation_def answering_api_def
        trim_answer [simplified])

lemma generateCaption_blank:
  "generateCaption blank_api example_service png_bytes ''image/png'' = (Inr [], [Invoke 0])"
  by (simp add: generateCaption_def withRetry_unfold caption_operation_def blank_api_def
        trim_blank)

lemma generateCaptionWithPrompt_blank:
  "generateCaptionWithPrompt blank_api example_service png_bytes ''image/png''
     ''What is this?'' = (Inr [], [Invoke 0])"
  by (simp add: generateCaptionWithPrompt_def withRetry_unfold prompt_operation_def
        blank_api_def trim_blank)

lemma route_caption_answering:
  "route_caption configured_env answering_api request_time png_upload =
     (\<lparr>http_status = 200,
       body = \<lparr>success = True, caption = Some ''A cat on a sofa.'', error = None,
               timestamp = request_time\<rparr>\<rparr>, [Invoke 0])"
  using post_caption_valid [OF png_file_valid, of configured_env answering_api request_time]
  by (simp add: route_caption_def upload_single_png getVisionService_configured_env
        png_file_def generateCaption_answering)

text \<open>
  Claim C3, at the input where the code departs from it. The model answers a PNG upload
  with the content \<open>" "\<close>. The test \<open>!caption\<close> lets it pass, since it is made before
  \<open>trim\<close>, and the response is 200 with \<open>success\<close> true and the empty caption, on both
  routes.
\<close>

theorem blank_content_empty_caption:
  "route_caption configured_env blank_api request_time png_upload =
     (\<lparr>http_status = 200,
       body = \<lparr>success = True, caption = Some [], error = None,
               timestamp = request_time\<rparr>\<rparr>, [Invoke 0]) \<and>
   route_custom configured_env blank_api request_time
       (png_upload\<lparr>prompt_fields := [''What is this?'']\<rparr>) =
     (\<lparr>http_status = 200,
       body = \<lparr>success = True, caption = Some [], error = None,
               timestamp = request_time\<rparr>\<rparr>, [Invoke 0])"
proof -
  have up: "upload_single (png_upload\<lparr>prompt_fields := [''What is this?'']\<rparr>) =
      Inr (Some png_file)"
    using upload_single_png by (simp add: upload_single_def)
  have q: "trim ''What is this?'' = ''What is this?''"
    by (simp add: trim_def trimStart_def trimEnd_def whiteSpace_def strip.simps)
  then have "trim ''What is this?'' \<noteq> []"
    by simp
  note custom = post_custom_valid [OF png_file_valid this,
      of configured_env blank_api request_time]
  have "route_caption configured_env blank_api request_time png_upload =
     (\<lparr>http_status = 200,
       body = \<lparr>success = True, caption = Some [], error = None,
               timestamp = request_time\<rparr>\<rparr>, [Invoke 0])"
    using post_caption_valid [OF png_file_valid, of configured_env blank_api request_time]
    by (simp add: route_caption_def upload_single_png getVisionService_configured_env
          png_file_def generateCaption_blank)
  moreover have "route_custom configured_env blank_api request_time
       (png_upload\<lparr>prompt_fields := [''What is this?'']\<rparr>) =
     (\<lparr>http_status = 200,
       body = \<lparr>success = True, caption = Some [], error = None,
               timestamp = request_time\<rparr>\<rparr>, [Invoke 0])"
    using custom
    by (simp add: route_custom_def up getVisionService_configured_env png_file_def q
          generateCaptionWithPrompt_blank)
  ultimately show ?thesis ..
qed

text \<open>
  A file part of an unsupported type is answered with 500 on both routes.
\<close>

lemma wrong_type_upload:
  assumes "image_part req = Some part" and "part_mimetype part \<notin> set SUPPORTED_IMAGE_TYPES"
  shows "route_caption env api now req =
     (\<lparr>http_status = 500,
       body = \<lparr>success = False, caption = None,
               error = Some ''Invalid file type. Supported types: image/jpeg, image/png, image/gif, image/webp'',
               timestamp = now\<rparr>\<rparr>, [])"
    and "route_custom env api now req =
     (\<lparr>http_status = 500,
       body = \<lparr>success = False, caption = None,
               error = Some ''Invalid file type. Supported types: image/jpeg, image/png, image/gif, image/webp'',
               timestamp = now\<rparr>\<rparr>, [])"
  using upload_single_wrong_type [OF assms]
  by (simp_all add: route_caption_def route_custom_def new_Error_def)

lemma text_plain_unsupported: "''text/plain'' \<notin> set SUPPORTED_IMAGE_TYPES"
  by (simp add: SUPPORTED_IMAGE_TYPES_def)

text \<open>
  Claim C4, at the input where the code departs from it. An upload of type
  \<open>text/plain\<close> never reaches \<open>validateFile\<close>: \<open>fileFilter\<close> refuses it with a plain
  \<open>Error\<close>, which the error-handling middleware answers with status 500, on both routes.
  The model is not called.
\<close>

theorem wrong_type_upload_status_500:
  "route_caption env api now text_upload =
     (\<lparr>http_status = 500,
       body = \<lparr>success = False, caption = None,
               error = Some ''Invalid file type. Supported types: image/jpeg, image/png, image/gif, image/webp'',
               timestamp = now\<rparr>\<rparr>, []) \<and>
   route_custom env api now text_upload =
     (\<lparr>http_status = 500,
       body = \<lparr>success = False, caption = None,
               error = Some ''Invalid file type. Supported types: image/jpeg, image/png, image/gif, image/webp'',
               timestamp = now\<rparr>\<rparr>, [])"
proof -
  have "image_part text_upload =
      Some \<lparr>part_content_type = ''text/plain'', part_data = [0x68, 0x69]\<rparr>"
    by (simp add: text_upload_def)
  from wrong_type_upload [OF this] text_plain_unsupported show ?thesis
    by (simp add: part_mimetype_text)
qed

text \<open>
  What holds of claim C4. A file that \<open>validateFile\<close> refuses is answered with 400 by
  both handlers, the unsupported type included, and so is a request without a file or
  with an empty file of a supported type on both routes. The model is not called.
\<close>

lemma handlers_reject:
  assumes "\<not> isValid (validateFile req_file)"
  shows "\<exists>m. post_caption env api now req_file =
           (\<lparr>http_status = 400,
             body = \<lparr>success = False, caption = None, error = Some m, timestamp = now\<rparr>\<rparr>, []) \<and>
         post_custom env api now req_file req_prompt =
           (\<lparr>http_status = 400,
             body = \<lparr>success = False, caption = None, error = Some m, timestamp = now\<rparr>\<rparr>, [])"
proof -
  from validateFile_invalid_error [OF assms] obtain m where
    "validation_error (validateFile req_file) = Some m" ..
  with assms have "post_caption env api now req_file =
           (\<lparr>http_status = 400,
             body = \<lparr>success = False, caption = None, error = Some m, timestamp = now\<rparr>\<rparr>, []) \<and>
         post_custom env api now req_file req_prompt =
           (\<lparr>http_status = 400,
             body = \<lparr>success = False, caption = None, error = Some m, timestamp = now\<rparr>\<rparr>, [])"
    by (simp add: post_caption_invalid post_custom_invalid)
  then show ?thesis ..
qed

lemma routes_reject:
  assumes up: "upload_single req = Inr req_file" and inv: "\<not> isValid (validateFile req_file)"
  shows "\<exists>m. route_caption env api now req =
           (\<lparr>http_status = 400,
             body = \<lparr>success = False, caption = None, error = Some m, timestamp = now\<rparr>\<rparr>, []) \<and>
         route_custom env api now req =
           (\<lparr>http_status = 400,
             body = \<lparr>success = False, caption = None, error = Some m, timestamp = now\<rparr>\<rparr>, [])"
proof -
  from handlers_reject [OF inv, of env api now "body_prompt (prompt_fields req)"] obtain m where
    "post_caption env api now req_file =
       (\<lparr>http_status = 400,
         body = \<lparr>success = False, caption = None, error = Some m, timestamp = now\<rparr>\<rparr>, []) \<and>
     post_custom env api now req_file (body_prompt (prompt_fields req)) =
       (\<lparr>http_status = 400,
         body = \<lparr>success = False, caption = None, error = Some m, timestamp = now\<rparr>\<rparr>, [])" ..
  with up have "route_caption env api now req =
         (\<lparr>http_status = 400,
           body = \<lparr>success = False, caption = None, error = Some m, timestamp = now\<rparr>\<rparr>, []) \<and>
       route_custom env api now req =
         (\<lparr>http_status = 400,
           body = \<lparr>success = False, caption = None, error = Some m, timestamp = now\<rparr>\<rparr>, [])"
    by (simp add: route_caption_def route_custom_def)
  then show ?thesis ..
qed

lemma missing_or_empty_upload:
  assumes "image_part req = None \<or>
           (\<exists>part. image_part req = Some part \<and> part_data part = [] \<and>
              part_mimetype part \<in> set SUPPORTED_IMAGE_TYPES)"
  shows "\<exists>m. route_caption env api now req =
           (\<lparr>http_status = 400,
             body = \<lparr>success = False, caption = None, error = Some m, timestamp = now\<rparr>\<rparr>, []) \<and>
         route_custom env api now req =
           (\<lparr>http_status = 400,
             body = \<lparr>success = False, caption = None, error = Some m, timestamp = now\<rparr>\<rparr>, [])"
  using assms
proof (elim disjE exE conjE)
  assume "image_part req = None"
  then have "upload_single req = Inr None"
    by (rule upload_single_none)
  moreover have "\<not> isValid (validateFile None)"
    by simp
  ultimately show ?thesis
    by (rule routes_reject)
next
  fix part
  assume part: "image_part req = Some part" "part_data part = []"
    "part_mimetype part \<in> set SUPPORTED_IMAGE_TYPES"
  let ?f = "\<lparr>buffer = part_data part, mimetype = part_mimetype part\<rparr>"
  from part(2) have "length (part_data part) \<le> fileSize"
    by simp
  with part(1,3) have "upload_single req = Inr (Some ?f)"
    by (rule upload_single_accepted)
  moreover from part(2) have "\<not> isValid (validateFile (Some ?f))"
    by simp
  ultimately show ?thesis
    by (rule routes_reject)
qed

text \<open>
  Claim C5, at the input where the code departs from it. An upload of one byte more than
  the 10 MB limit and of type \<open>text/plain\<close> is refused by \<open>fileFilter\<close> before its size is
  looked at, and answered with status 500 on both routes.
\<close>

theorem oversize_text_upload_status_500:
  "image_part oversize_text_upload =
     Some \<lparr>part_content_type = ''text/plain'', part_data = replicate (fileSize + 1) 0\<rparr> \<and>
   fileSize < length (replicate (fileSize + 1) (0 :: 8 word)) \<and>
   route_caption env api now oversize_text_upload =
     (\<lparr>http_status = 500,
       body = \<lparr>success = False, caption = None,
               error = Some ''Invalid file type. Supported types: image/jpeg, image/png, image/gif, image/webp'',
               timestamp = now\<rparr>\<rparr>, []) \<and>
   route_custom env api now oversize_text_upload =
     (\<lparr>http_status = 500,
       body = \<lparr>success = False, caption = None,
               error = Some ''Invalid file type. Supported types: image/jpeg, image/png, image/gif, image/webp'',
               timestamp = now\<rparr>\<rparr>, [])"
proof -
  have "image_part oversize_text_upload =
      Some \<lparr>part_content_type = ''text/plain'', part_data = replicate (fileSize + 1) 0\<rparr>"
    by (simp add: oversize_text_upload_def)
  from this wrong_type_upload [OF this] text_plain_unsupported show ?thesis
    by (simp add: part_mimetype_text)
qed

text \<open>
  What holds of claim C5. An upload of a supported type that exceeds the limit is answered
  with 400 on both routes. A failure of \<open>generateCaption\<close> or \<open>generateCaptionWithPrompt\<close>
  is answered with 500, \<open>success\<close> false and the message of the error thrown, which
  \<open>generateCaption\<close> never leaves empty.
\<close>

lemma oversize_upload:
  assumes "image_part req = Some part" and "part_mimetype part \<in> set SUPPORTED_IMAGE_TYPES"
    and "fileSize < length (part_data part)"
  shows "route_caption env api now req =
     (\<lparr>http_status = 400,
       body = \<lparr>success = False, caption = None,
               error = Some ''File size exceeds the 10MB limit'', timestamp = now\<rparr>\<rparr>, [])"
    and "route_custom env api now req =
     (\<lparr>http_status = 400,
       body = \<lparr>success = False, caption = None,
               error = Some ''File size exceeds the 10MB limit'', timestamp = now\<rparr>\<rparr>, [])"
  using upload_single_too_large [OF assms]
  by (simp_all add: route_caption_def route_custom_def)

lemma generateCaption_catch_Error:
  "\<exists>m. generateCaption_catch e = Err (new_Error m) \<and> m \<noteq> []"
  by (cases e) (simp_all add: rate_limited_message_def new_Error_def)

lemma generateCaption_throws:
  assumes "fst (generateCaption api service imageBuffer mimeType) = Inl e"
  shows "\<exists>m. e = Err (new_Error m) \<and> m \<noteq> []"
proof (cases "fst (withRetry (caption_operation api service imageBuffer mimeType))")
  case (Inl x)
  with assms have "e = generateCaption_catch x"
    by (simp add: generateCaption_fst del: generateCaption_catch.simps)
  with generateCaption_catch_Error [of x] show ?thesis
    by simp
next
  case (Inr c)
  with assms show ?thesis
    by (simp add: generateCaption_fst)
qed

lemma withRetry_throws_Error:
  "fst (withRetry operation) = Inl x \<Longrightarrow> \<exists>er. x = Err er"
  unfolding withRetry_unfold
  by (cases "operation 0"; cases "operation 1"; cases "operation 2")
     (auto split: if_splits)

lemma generateCaptionWithPrompt_throws:
  assumes "fst (generateCaptionWithPrompt api service imageBuffer mimeType customPrompt) = Inl e"
  shows "\<exists>er. e = Err er"
proof (cases "fst (withRetry (prompt_operation api service imageBuffer mimeType customPrompt))")
  case (Inl x)
  with assms have "e = generateCaptionWithPrompt_catch x"
    by (simp add: generateCaptionWithPrompt_fst del: generateCaptionWithPrompt_catch.simps)
  then show ?thesis
    by (cases x) simp_all
next
  case (Inr c)
  with assms show ?thesis
    by (simp add: generateCaptionWithPrompt_fst)
qed

lemma upstream_failure_caption:
  assumes "isValid (validateFile (Some f))" and "getVisionService env = Inr service"
    and "fst (generateCaption api service (buffer f) (mimetype f)) = Inl e"
  shows "\<exists>m. m \<noteq> [] \<and> fst (post_caption env api now (Some f)) =
     \<lparr>http_status = 500,
      body = \<lparr>success = False, caption = None, error = Some m, timestamp = now\<rparr>\<rparr>"
proof -
  from generateCaption_throws [OF assms(3)] obtain m where "e = Err (new_Error m)" "m \<noteq> []"
    by blast
  with assms have "m \<noteq> [] \<and> fst (post_caption env api now (Some f)) =
     \<lparr>http_status = 500,
      body = \<lparr>success = False, caption = None, error = Some m, timestamp = now\<rparr>\<rparr>"
    by (simp add: post_caption_valid handler_catch_shape new_Error_def del: validateFile.simps)
  then show ?thesis ..
qed

lemma upstream_failure_custom:
  assumes "isValid (validateFile (Some f))" and "getVisionService env = Inr service"
    and "trim p \<noteq> []"
    and "fst (generateCaptionWithPrompt api service (buffer f) (mimetype f) (trim p)) = Inl e"
  shows "\<exists>er. e = Err er \<and> fst (post_custom env api now (Some f) (Some (Str p))) =
     \<lparr>http_status = 500,
      body = \<lparr>success = False, caption = None, error = Some (message er), timestamp = now\<rparr>\<rparr>"
proof -
  from generateCaptionWithPrompt_throws [OF assms(4)] obtain er where "e = Err er" ..
  with assms have "e = Err er \<and> fst (post_custom env api now (Some f) (Some (Str p))) =
     \<lparr>http_status = 500,
      body = \<lparr>success = False, caption = None, error = Some (message er), timestamp = now\<rparr>\<rparr>"
    by (simp add: post_custom_valid handler_catch_shape del: validateFile.simps)
  then show ?thesis ..
qed

text \<open>
  The two shapes of a response, and what they give.
\<close>

lemma envelope_of_shape:
  assumes "(\<exists>c. r =
      \<lparr>http_status = 200,
       body = \<lparr>success = True, caption = Some c, error = None, timestamp = now\<rparr>\<rparr>) \<or>
   (\<exists>st m. (st = 400 \<or> st = 500) \<and> r =
      \<lparr>http_status = st,
       body = \<lparr>success = False, caption = None, error = Some m, timestamp = now\<rparr>\<rparr>)"
  shows "timestamp (body r) = now \<and>
     (success (body r) \<longleftrightarrow> http_status r = 200) \<and>
     (caption (body r) \<noteq> None \<longrightarrow> success (body r)) \<and>
     (error (body r) \<noteq> None \<longrightarrow> \<not> success (body r))"
proof -
  from assms consider
      (ok) c where "r = \<lparr>http_status = 200,
        body = \<lparr>success = True, caption = Some c, error = None, timestamp = now\<rparr>\<rparr>"
    | (failed) st m where "st = 400 \<or> st = 500" "r = \<lparr>http_status = st,
        body = \<lparr>success = False, caption = None, error = Some m, timestamp = now\<rparr>\<rparr>"
    by blast
  then show ?thesis
  proof cases
    case ok
    then show ?thesis by simp
  next
    case failed
    then show ?thesis by auto
  qed
qed

text \<open>
  Claim C9. Every response of \<open>POST /\<close> and \<open>POST /custom\<close>, whether it comes from
  the handler or, through multer, from the error-handling middleware, and every response
  of that middleware, carries the \<open>success\<close> flag and the timestamp taken when it was
  built; \<open>success\<close> is true exactly when the status is 200; a caption is present only
  when \<open>success\<close> is true, and an error only when it is false.
\<close>

theorem response_envelope:
  "\<forall>r \<in> {fst (route_caption env api now req), fst (route_custom env api now req),
          fst (post_caption env api now req_file),
          fst (post_custom env api now req_file req_prompt),
          error_middleware now err}.
     timestamp (body r) = now \<and>
     (success (body r) \<longleftrightarrow> http_status r = 200) \<and>
     (caption (body r) \<noteq> None \<longrightarrow> success (body r)) \<and>
     (error (body r) \<noteq> None \<longrightarrow> \<not> success (body r))"
proof -
  note a = envelope_of_shape [OF route_caption_shape [of env api now req]]
  note b = envelope_of_shape [OF route_custom_shape [of env api now req]]
  note c = envelope_of_shape [OF post_caption_shape [of env api now req_file]]
  note d = envelope_of_shape [OF post_custom_shape [of env api now req_file req_prompt]]
  have "\<exists>st m. (st = 400 \<or> st = 500) \<and> error_middleware now err =
      \<lparr>http_status = st,
       body = \<lparr>success = False, caption = None, error = Some m, timestamp = now\<rparr>\<rparr>"
    by (rule error_middleware_shape)
  then have e: "timestamp (body (error_middleware now err)) = now \<and>
     (success (body (error_middleware now err)) \<longleftrightarrow>
        http_status (error_middleware now err) = 200) \<and>
     (caption (body (error_middleware now err)) \<noteq> None \<longrightarrow>
        success (body (error_middleware now err))) \<and>
     (error (body (error_middleware now err)) \<noteq> None \<longrightarrow>
        \<not> success (body (error_middleware now err)))"
    by (intro envelope_of_shape) blast
  from a b c d e show ?thesis
    by blast
qed

text \<open>
  The theorem at a successful caption request and at the middleware's answer to an
  oversized upload.
\<close>

theorem response_envelope_witness:
  "caption (body (fst (route_caption configured_env answering_api request_time png_upload))) =
     Some ''A cat on a sofa.'' \<and>
   success (body (fst (route_caption configured_env answering_api request_time png_upload))) \<and>
   http_status (fst (route_caption configured_env answering_api request_time png_upload)) = 200 \<and>
   error (body (error_middleware request_time (MulterError ''LIMIT_FILE_SIZE'' ''File too large''))) =
     Some ''File size exceeds the 10MB limit'' \<and>
   \<not> success (body (error_middleware request_time
       (MulterError ''LIMIT_FILE_SIZE'' ''File too large''))) \<and>
   http_status (error_middleware request_time
       (MulterError ''LIMIT_FILE_SIZE'' ''File too large'')) \<noteq> 200"
proof -
  let ?ok = "fst (route_caption configured_env answering_api request_time png_upload)"
  let ?bad = "error_middleware request_time (MulterError ''LIMIT_FILE_SIZE'' ''File too large'')"
  have c: "caption (body ?ok) = Some ''A cat on a sofa.''"
    by (simp add: route_caption_answering)
  have e: "error (body ?bad) = Some ''File size exceeds the 10MB limit''"
    by simp
  note env = response_envelope [of configured_env answering_api request_time png_upload
      None None "MulterError ''LIMIT_FILE_SIZE'' ''File too large''"]
  from env have "caption (body ?ok) \<noteq> None \<longrightarrow> success (body ?ok)"
    and "success (body ?ok) \<longleftrightarrow> http_status ?ok = 200"
    and "error (body ?bad) \<noteq> None \<longrightarrow> \<not> success (body ?bad)"
    and "success (body ?bad) \<longleftrightarrow> http_status ?bad = 200"
    by blast+
  with c e show ?thesis
    by simp
qed





end
